theory Spec2Isabelle
  imports Main "HOL-Library.Word" "HOL-Library.Char_ord" "HOL-Library.List_Lexorder"
begin

unbundle bit_operations_syntax

section \<open>Paths: the functions of Go's path/filepath that kustomize.go calls\<close>

text \<open>
  kustomize.go calls \<^verbatim>\<open>filepath.Join\<close>, \<^verbatim>\<open>filepath.IsAbs\<close>, \<^verbatim>\<open>filepath.Dir\<close> and
  \<^verbatim>\<open>filepath.Base\<close> of the Go standard library. They are modelled for a Unix target
  (separator \<^verbatim>\<open>/\<close>, no volume names), on path elements: \<^verbatim>\<open>Clean\<close> drops empty and
  \<^verbatim>\<open>.\<close> elements, lets an inner \<^verbatim>\<open>..\<close> remove the element before it, drops a \<^verbatim>\<open>..\<close>
  that would climb above the root, keeps leading \<^verbatim>\<open>..\<close> of a relative path, and turns
  an empty result into \<^verbatim>\<open>.\<close>.
\<close>

text \<open>\<^verbatim>\<open>strings.Split(s, sep)\<close> for a one-byte separator.\<close>

primrec Split :: "char \<Rightarrow> string \<Rightarrow> string list" where
  "Split sep [] = [[]]"
| "Split sep (c # cs) =
     (if c = sep then [] # Split sep cs
      else (case Split sep cs of [] \<Rightarrow> [[c]] | x # xs \<Rightarrow> (c # x) # xs))"

text \<open>\<^verbatim>\<open>strings.Join(elems, "/")\<close>.\<close>

fun joinSep :: "string list \<Rightarrow> string" where
  "joinSep [] = []"
| "joinSep [x] = x"
| "joinSep (x # y # ys) = x @ ''/'' @ joinSep (y # ys)"

text \<open>
  One element of the path read by \<^verbatim>\<open>Clean\<close>; \<open>out\<close> is the output so far, last element
  first. A \<^verbatim>\<open>..\<close> backtracks when the output ends in a real element; otherwise it is
  appended for a relative path and dropped for a rooted one.
\<close>

definition cleanStep :: "bool \<Rightarrow> string list \<Rightarrow> string \<Rightarrow> string list" where
  "cleanStep rooted out elem =
     (if elem = [] \<or> elem = ''.'' then out
      else if elem = ''..'' then
        (case out of
           e # rest \<Rightarrow> if e \<noteq> ''..'' then rest else ''..'' # out
         | [] \<Rightarrow> if rooted then [] else [''..''])
      else elem # out)"

definition IsAbs :: "string \<Rightarrow> bool" where
  "IsAbs path = (case path of [] \<Rightarrow> False | c # _ \<Rightarrow> c = CHR ''/'')"

definition Clean :: "string \<Rightarrow> string" where
  "Clean path =
     (if path = [] then ''.''
      else let rooted = IsAbs path;
               out = foldl (cleanStep rooted) [] (Split (CHR ''/'') path);
               s = (if rooted then ''/'' else []) @ joinSep (rev out)
           in if s = [] then ''.'' else s)"

text \<open>
  \<^verbatim>\<open>filepath.Join(a, b)\<close>: empty elements are ignored, the rest is joined with the
  separator and cleaned; with nothing left the result is the empty string.
\<close>

definition Join :: "string \<Rightarrow> string \<Rightarrow> string" where
  "Join a b =
     (if a \<noteq> [] then Clean (a @ ''/'' @ b) else if b \<noteq> [] then Clean b else [])"

text \<open>
  \<^verbatim>\<open>filepath.Base\<close>: the last element, trailing separators removed first; \<^verbatim>\<open>.\<close> for
  the empty path and \<^verbatim>\<open>/\<close> for a path of separators only.
\<close>

definition Base :: "string \<Rightarrow> string" where
  "Base path =
     (if path = [] then ''.''
      else let p = rev (dropWhile (\<lambda>c. c = CHR ''/'') (rev path));
               e = rev (takeWhile (\<lambda>c. c \<noteq> CHR ''/'') (rev p))
           in if e = [] then ''/'' else e)"

text \<open>
  \<^verbatim>\<open>filepath.Dir\<close>: everything up to and including the last separator, cleaned.
\<close>

definition dirPrefix :: "string \<Rightarrow> string" where
  "dirPrefix path = rev (dropWhile (\<lambda>c. c \<noteq> CHR ''/'') (rev path))"

definition Dir :: "string \<Rightarrow> string" where
  "Dir path = Clean (dirPrefix path)"

text \<open>
  The elements of a path that \<^verbatim>\<open>Clean\<close> keeps when the path has no \<^verbatim>\<open>..\<close> element:
  those that are neither empty nor \<^verbatim>\<open>.\<close>.
\<close>

definition elements :: "string \<Rightarrow> string list" where
  "elements path = filter (\<lambda>e. e \<noteq> [] \<and> e \<noteq> ''.'') (Split (CHR ''/'') path)"

section \<open>Package variables\<close>

definition DefaultKustomizePath :: string where
  "DefaultKustomizePath = ''.''"

definition kustomizeFilePaths :: "string list" where
  "kustomizeFilePaths = [''kustomization.yaml'', ''kustomization.yml'', ''Kustomization'']"

definition basePath :: string where
  "basePath = ''base''"

section \<open>Data model\<close>

text \<open>
  Go errors are opaque values; \<open>Wrapped msg e\<close> is \<^verbatim>\<open>fmt.Errorf(msg + ": %w", e)\<close>, and
  \<open>TypeError issues\<close> is the \<^verbatim>\<open>*yaml.TypeError\<close> of the YAML library, which the library
  tells apart from every other error.
\<close>

datatype error = Error string | Wrapped string error | TypeError "string list"

record patchPath =
  Path :: string
  Patch :: string

record patchWrapper =
  patchPath :: patchPath

record strategicMergePatch =
  Path :: string
  Patch :: string

record patchJSON6902 =
  Path :: string

record configMapGenerator =
  Files :: "string list"
  Env :: string
  Envs :: "string list"

record secretGenerator =
  Files :: "string list"
  Env :: string
  Envs :: "string list"

record kustomization =
  Bases :: "string list"
  Resources :: "string list"
  Patches :: "patchWrapper list"
  PatchesStrategicMerge :: "strategicMergePatch list"
  CRDs :: "string list"
  PatchesJSON6902 :: "patchJSON6902 list"
  ConfigMapGenerator :: "configMapGenerator list"
  SecretGenerator :: "secretGenerator list"

section \<open>Custom YAML unmarshalling\<close>

text \<open>
  A scalar node of \<^verbatim>\<open>gopkg.in/yaml.v3\<close>, with the two fields the code reads. \<^verbatim>\<open>Style\<close>
  is a \<^verbatim>\<open>uint8\<close> bit set; the library's constants are \<^verbatim>\<open>1 << iota\<close>, and a plain
  scalar has style 0.
\<close>

record Node =
  Style :: "8 word"
  Value :: string

definition TaggedStyle :: "8 word" where "TaggedStyle = 1"
definition DoubleQuotedStyle :: "8 word" where "DoubleQuotedStyle = 2"
definition SingleQuotedStyle :: "8 word" where "SingleQuotedStyle = 4"
definition LiteralStyle :: "8 word" where "LiteralStyle = 8"
definition FoldedStyle :: "8 word" where "FoldedStyle = 16"
definition FlowStyle :: "8 word" where "FlowStyle = 32"

text \<open>
  \<^verbatim>\<open>(p *strategicMergePatch) UnmarshalYAML(node)\<close>: the receiver is updated in one of its
  two fields; the error returned is always nil.
\<close>

definition strategicMergePatch_UnmarshalYAML ::
  "strategicMergePatch \<Rightarrow> Node \<Rightarrow> strategicMergePatch \<times> error option" where
  "strategicMergePatch_UnmarshalYAML p node =
     (if Style node = 0 \<or> Style node = DoubleQuotedStyle \<or> Style node = SingleQuotedStyle
      then (p\<lparr>strategicMergePatch.Path := Value node\<rparr>, None)
      else (p\<lparr>strategicMergePatch.Patch := Value node\<rparr>, None))"

text \<open>
  The \<^verbatim>\<open>unmarshal\<close> callback the YAML library hands to \<^verbatim>\<open>patchWrapper.UnmarshalYAML\<close>.
  The code calls it with a \<^verbatim>\<open>*patchPath\<close> target and, when that fails, with a string
  target. \<open>intoPatchPath pp\<close> is the target after the call and the error returned;
  \<open>intoString\<close> is the string decoded or the error.
\<close>

record unmarshalFn =
  intoPatchPath :: "patchPath \<Rightarrow> patchPath \<times> error option"
  intoString :: "error + string"

definition zeroPatchPath :: patchPath where
  "zeroPatchPath = \<lparr>patchPath.Path = [], patchPath.Patch = []\<rparr>"

definition zeroStrategicMergePatch :: strategicMergePatch where
  "zeroStrategicMergePatch = \<lparr>strategicMergePatch.Path = [], strategicMergePatch.Patch = []\<rparr>"

text \<open>
  \<^verbatim>\<open>(p *patchWrapper) UnmarshalYAML(unmarshal)\<close>. The deprecation warning is a log line
  and is left out.
\<close>

definition patchWrapper_UnmarshalYAML :: "unmarshalFn \<Rightarrow> error + patchWrapper" where
  "patchWrapper_UnmarshalYAML unmarshal =
     (case intoPatchPath unmarshal zeroPatchPath of
        (pp, None) \<Rightarrow> Inr \<lparr>patchPath = pp\<rparr>
      | (pp, Some _) \<Rightarrow>
          (case intoString unmarshal of
             Inl err \<Rightarrow> Inl err
           | Inr oldPathString \<Rightarrow> Inr \<lparr>patchPath = pp\<lparr>patchPath.Path := oldPathString\<rparr>\<rparr>))"

text \<open>
  What the YAML library decodes of a kustomization file before the two custom
  unmarshallers run: the plain fields as they are, the entries of
  \<^verbatim>\<open>patchesStrategicMerge\<close> as scalar nodes, the entries of \<^verbatim>\<open>patches\<close> as callbacks.
\<close>

record yamlDocument =
  docBases :: "string list"
  docResources :: "string list"
  docPatches :: "unmarshalFn list"
  docPatchesStrategicMerge :: "Node list"
  docCRDs :: "string list"
  docPatchesJSON6902 :: "patchJSON6902 list"
  docConfigMapGenerator :: "configMapGenerator list"
  docSecretGenerator :: "secretGenerator list"

text \<open>
  The entries of \<^verbatim>\<open>patches\<close>, as the library calls their unmarshaller in turn. When an
  entry returns a \<^verbatim>\<open>*yaml.TypeError\<close> the library keeps its issues, leaves the entry
  out and goes on; any other error ends the decoding with that error. The result is the
  entries decoded and the issues kept, in order.
\<close>

fun unmarshalPatches :: "unmarshalFn list \<Rightarrow> error + patchWrapper list \<times> string list" where
  "unmarshalPatches [] = Inr ([], [])"
| "unmarshalPatches (u # us) =
     (case patchWrapper_UnmarshalYAML u of
        Inl (TypeError issues) \<Rightarrow>
          (case unmarshalPatches us of
             Inl err \<Rightarrow> Inl err
           | Inr (ps, terrors) \<Rightarrow> Inr (ps, issues @ terrors))
      | Inl err \<Rightarrow> Inl err
      | Inr p \<Rightarrow>
          (case unmarshalPatches us of
             Inl err \<Rightarrow> Inl err
           | Inr (ps, terrors) \<Rightarrow> Inr (p # ps, terrors)))"

text \<open>
  Filling a zero \<^verbatim>\<open>kustomization{}\<close> from the decoded document: each custom unmarshaller
  runs on a zero receiver. When issues were kept, the decoding fails with one
  \<^verbatim>\<open>*yaml.TypeError\<close> that holds them all.
\<close>

definition decodeKustomization :: "yamlDocument \<Rightarrow> error + kustomization" where
  "decodeKustomization d =
     (case unmarshalPatches (docPatches d) of
        Inl err \<Rightarrow> Inl err
      | Inr (ps, terrors) \<Rightarrow>
          if terrors \<noteq> [] then Inl (TypeError terrors)
          else
          Inr \<lparr>Bases = docBases d,
               Resources = docResources d,
               Patches = ps,
               PatchesStrategicMerge =
                 map (\<lambda>n. fst (strategicMergePatch_UnmarshalYAML zeroStrategicMergePatch n))
                   (docPatchesStrategicMerge d),
               CRDs = docCRDs d,
               PatchesJSON6902 = docPatchesJSON6902 d,
               ConfigMapGenerator = docConfigMapGenerator d,
               SecretGenerator = docSecretGenerator d\<rparr>)"

section \<open>The local filesystem and the YAML library\<close>

text \<open>
  \<open>Stat path\<close> is the \<^verbatim>\<open>os.FileMode\<close> of \<^verbatim>\<open>os.Stat(path)\<close> when it returns no error,
  \<open>ReadFile\<close> is \<^verbatim>\<open>ioutil.ReadFile\<close>, \<open>Parse\<close> is the YAML library on the bytes read.
\<close>

record env =
  Stat :: "string \<Rightarrow> 32 word option"
  ReadFile :: "string \<Rightarrow> error + string"
  Parse :: "string \<Rightarrow> error + yamlDocument"

definition ModeDir :: "32 word" where
  "ModeDir = push_bit 31 1"

definition IsDir :: "32 word \<Rightarrow> bool" where
  "IsDir m = (m AND ModeDir \<noteq> 0)"

definition yaml_Unmarshal :: "env \<Rightarrow> string \<Rightarrow> error + kustomization" where
  "yaml_Unmarshal fs buf =
     (case Parse fs buf of Inl err \<Rightarrow> Inl err | Inr d \<Rightarrow> decodeKustomization d)"

definition pathExistsLocally :: "env \<Rightarrow> string \<Rightarrow> string \<Rightarrow> bool \<times> 32 word" where
  "pathExistsLocally fs filename workingDir =
     (let path = (if \<not> IsAbs filename then Join workingDir filename else filename)
      in case Stat fs path of Some mode \<Rightarrow> (True, mode) | None \<Rightarrow> (False, 0))"

fun findConfigIn :: "env \<Rightarrow> string \<Rightarrow> string list \<Rightarrow> error + string" where
  "findConfigIn fs dir [] =
     Inl (Error (''no Kustomization configuration found in directory: '' @ dir))"
| "findConfigIn fs dir (candidate # rest) =
     (if fst (pathExistsLocally fs candidate dir) then Inr (Join dir candidate)
      else findConfigIn fs dir rest)"

definition findKustomizationConfig :: "env \<Rightarrow> string \<Rightarrow> error + string" where
  "findKustomizationConfig fs dir = findConfigIn fs dir kustomizeFilePaths"

text \<open>
  Modelled from the spec: \<^verbatim>\<open>util.AbsolutePaths\<close> is defined in package util, not in
  kustomize.go. The spec resolves a path as "if path is absolute, resolve as-is; otherwise
  join with workingDir".
\<close>

definition AbsolutePaths :: "string \<Rightarrow> string list \<Rightarrow> string list" where
  "AbsolutePaths workspace paths =
     map (\<lambda>path. if \<not> IsAbs path then Join workspace path else path) paths"

section \<open>The dependency resolver\<close>

text \<open>
  The loop over \<^verbatim>\<open>candidates\<close> of \<^verbatim>\<open>dependenciesForKustomization\<close>. \<open>recurse\<close> is the
  recursive call; \<open>deps\<close> is the slice built so far. \<open>None\<close> is a recursive call that does
  not return.
\<close>

fun candidatesLoop ::
  "(string \<Rightarrow> (error + string list) option) \<Rightarrow> env \<Rightarrow> string \<Rightarrow> string list \<Rightarrow> string list
    \<Rightarrow> (error + string list) option" where
  "candidatesLoop recurse fs dir [] deps = Some (Inr deps)"
| "candidatesLoop recurse fs dir (candidate # rest) deps =
     (case pathExistsLocally fs candidate dir of
        (False, _) \<Rightarrow> candidatesLoop recurse fs dir rest deps
      | (True, mode) \<Rightarrow>
          if IsDir mode then
            (case recurse (Join dir candidate) of
               None \<Rightarrow> None
             | Some (Inl err) \<Rightarrow> Some (Inl err)
             | Some (Inr candidateDeps) \<Rightarrow>
                 candidatesLoop recurse fs dir rest (deps @ candidateDeps))
          else candidatesLoop recurse fs dir rest (deps @ [Join dir candidate]))"

text \<open>The loops over the three kinds of patches: an entry with an empty path adds nothing.\<close>

definition strategicMergeStep :: "string \<Rightarrow> string list \<Rightarrow> strategicMergePatch \<Rightarrow> string list" where
  "strategicMergeStep dir deps patch =
     (if strategicMergePatch.Path patch \<noteq> []
      then deps @ [Join dir (strategicMergePatch.Path patch)] else deps)"

definition patchStep :: "string \<Rightarrow> string list \<Rightarrow> patchWrapper \<Rightarrow> string list" where
  "patchStep dir deps patch =
     (if patchPath.Path (patchPath patch) \<noteq> []
      then deps @ [Join dir (patchPath.Path (patchPath patch))] else deps)"

definition jsonPatchStep :: "string \<Rightarrow> string list \<Rightarrow> patchJSON6902 \<Rightarrow> string list" where
  "jsonPatchStep dir deps jsonPatch =
     (if patchJSON6902.Path jsonPatch \<noteq> []
      then deps @ [Join dir (patchJSON6902.Path jsonPatch)] else deps)"

text \<open>The bodies of the loops over the two kinds of generators.\<close>

definition configMapGeneratorStep ::
  "string \<Rightarrow> string list \<Rightarrow> configMapGenerator \<Rightarrow> string list" where
  "configMapGeneratorStep dir deps generator =
     (let deps1 = deps @ AbsolutePaths dir (configMapGenerator.Files generator);
          envs = configMapGenerator.Envs generator;
          envs1 = (if configMapGenerator.Env generator \<noteq> []
                   then envs @ [configMapGenerator.Env generator] else envs)
      in deps1 @ AbsolutePaths dir envs1)"

definition secretGeneratorStep ::
  "string \<Rightarrow> string list \<Rightarrow> secretGenerator \<Rightarrow> string list" where
  "secretGeneratorStep dir deps generator =
     (let deps1 = deps @ AbsolutePaths dir (secretGenerator.Files generator);
          envs = secretGenerator.Envs generator;
          envs1 = (if secretGenerator.Env generator \<noteq> []
                   then envs @ [secretGenerator.Env generator] else envs)
      in deps1 @ AbsolutePaths dir envs1)"

text \<open>Everything \<^verbatim>\<open>dependenciesForKustomization\<close> does after the loop over candidates.\<close>

definition afterCandidates :: "string \<Rightarrow> kustomization \<Rightarrow> string list \<Rightarrow> string list" where
  "afterCandidates dir content deps0 =
     (let deps1 = foldl (strategicMergeStep dir) deps0 (PatchesStrategicMerge content);
          deps2 = deps1 @ AbsolutePaths dir (CRDs content);
          deps3 = foldl (patchStep dir) deps2 (Patches content);
          deps4 = foldl (jsonPatchStep dir) deps3 (PatchesJSON6902 content);
          deps5 = foldl (configMapGeneratorStep dir) deps4 (ConfigMapGenerator content);
          deps6 = foldl (secretGeneratorStep dir) deps5 (SecretGenerator content)
      in deps6)"

text \<open>
  \<^verbatim>\<open>dependenciesForKustomization(dir)\<close>. The recursion follows the directories that the
  configuration files name and need not end (a kustomization whose base is its own
  directory), so the function takes the number of nested calls it may make: \<open>None\<close> is a
  run that needs more.
\<close>

fun dependenciesForKustomization ::
  "nat \<Rightarrow> env \<Rightarrow> string \<Rightarrow> (error + string list) option" where
  "dependenciesForKustomization 0 fs dir = None"
| "dependenciesForKustomization (Suc n) fs dir =
     (case findKustomizationConfig fs dir of
        Inl _ \<Rightarrow> Some (Inr [])
      | Inr path \<Rightarrow>
          (case ReadFile fs path of
             Inl err \<Rightarrow> Some (Inl err)
           | Inr buf \<Rightarrow>
               (case yaml_Unmarshal fs buf of
                  Inl err \<Rightarrow> Some (Inl err)
                | Inr content \<Rightarrow>
                    (case candidatesLoop (dependenciesForKustomization n fs) fs dir
                            (Bases content @ Resources content) [path] of
                       None \<Rightarrow> None
                     | Some (Inl err) \<Rightarrow> Some (Inl err)
                     | Some (Inr deps) \<Rightarrow> Some (Inr (afterCandidates dir content deps))))))"

declare dependenciesForKustomization.simps(2) [simp del]

section \<open>The deployer\<close>

type_synonym ManifestList = "string list"

type_synonym Artifact = "string \<times> string"

record Registries =
  InsecureRegistries :: "string \<Rightarrow> bool"
  DebugHelpersRegistry :: string

text \<open>
  The collaborators of the deployer, which the source calls and does not define: the
  kubectl CLI (\<^verbatim>\<open>CheckVersion\<close>, \<^verbatim>\<open>Version\<close>, \<^verbatim>\<open>Apply\<close>), the global configuration, the
  command runner, the operations of \<^verbatim>\<open>ManifestList\<close> and the package variable
  \<^verbatim>\<open>manifestTransforms\<close>. \<^verbatim>\<open>CollectNamespaces\<close> keeps both values Go returns, since
  \<^verbatim>\<open>Deploy\<close> uses the namespaces also when the error is not nil.
\<close>

record collaborators =
  CheckVersion :: "error option"
  Version :: string
  GetDebugHelpersRegistry :: "string \<Rightarrow> error + string"
  RunCmdOut :: "string \<Rightarrow> string list \<Rightarrow> error + string"
  Append :: "ManifestList \<Rightarrow> string \<Rightarrow> ManifestList"
  ReplaceImages :: "ManifestList \<Rightarrow> Artifact list \<Rightarrow> error + ManifestList"
  manifestTransforms ::
    "(ManifestList \<Rightarrow> Artifact list \<Rightarrow> Registries \<Rightarrow> error + ManifestList) list"
  SetLabels :: "ManifestList \<Rightarrow> (string \<Rightarrow> string option) \<Rightarrow> error + ManifestList"
  CollectNamespaces :: "ManifestList \<Rightarrow> string list \<times> error option"
  Apply :: "ManifestList \<Rightarrow> error option"

record KustomizeDeployer =
  KustomizePaths :: "string list"
  BuildArgs :: "string list"
  insecureRegistries :: "string \<Rightarrow> bool"
  labels :: "string \<Rightarrow> string option"
  globalConfig :: string

text \<open>
  The calls a run makes to its collaborators and the events it emits, in order. What is
  written to \<^verbatim>\<open>out\<close> is left out.
\<close>

datatype call =
    CallCheckVersion
  | CallVersion
  | CallGetDebugHelpersRegistry
  | CallRunCmdOut string "string list"
  | CallReplaceImages
  | CallTransform nat
  | CallSetLabels
  | CallCollectNamespaces
  | CallApply ManifestList
  | DeployInProgress
  | DeployFailed error
  | DeployComplete
  | DeployInfoEvent error

datatype Result = DeployErrorResult error | DeploySuccessResult "string list"

definition NewDeployErrorResult :: "error \<Rightarrow> Result" where
  "NewDeployErrorResult err = DeployErrorResult err"

definition NewDeploySuccessResult :: "string list \<Rightarrow> Result" where
  "NewDeploySuccessResult namespaces = DeploySuccessResult namespaces"

definition buildCommandArgs :: "string list \<Rightarrow> string \<Rightarrow> string list" where
  "buildCommandArgs buildArgs kustomizePath =
     (let args = [''build''];
          args1 = (if length buildArgs > 0
                   then foldl (\<lambda>args v. args @ Split (CHR '' '') v) args buildArgs
                   else args);
          args2 = (if length kustomizePath > 0 then args1 @ [kustomizePath] else args1)
      in args2)"

text \<open>The loop of \<^verbatim>\<open>readManifests\<close>; \<open>tr\<close> is the calls made so far.\<close>

fun readManifestsLoop ::
  "collaborators \<Rightarrow> string list \<Rightarrow> string list \<Rightarrow> ManifestList \<Rightarrow> call list
    \<Rightarrow> (error + ManifestList) \<times> call list" where
  "readManifestsLoop c buildArgs [] manifests tr = (Inr manifests, tr)"
| "readManifestsLoop c buildArgs (kustomizePath # rest) manifests tr =
     (let args = buildCommandArgs buildArgs kustomizePath;
          tr1 = tr @ [CallRunCmdOut ''kustomize'' args]
      in case RunCmdOut c ''kustomize'' args of
           Inl err \<Rightarrow> (Inl (Wrapped ''kustomize build'' err), tr1)
         | Inr out \<Rightarrow>
             if length out = 0 then readManifestsLoop c buildArgs rest manifests tr1
             else readManifestsLoop c buildArgs rest (Append c manifests out) tr1)"

definition readManifests ::
  "collaborators \<Rightarrow> KustomizeDeployer \<Rightarrow> call list \<Rightarrow> (error + ManifestList) \<times> call list" where
  "readManifests c k tr = readManifestsLoop c (BuildArgs k) (KustomizePaths k) [] tr"

text \<open>The loop over \<^verbatim>\<open>manifestTransforms\<close>; \<open>i\<close> is the index of the next transform.\<close>

fun transformsLoop ::
  "(ManifestList \<Rightarrow> Artifact list \<Rightarrow> Registries \<Rightarrow> error + ManifestList) list \<Rightarrow> nat
    \<Rightarrow> ManifestList \<Rightarrow> Artifact list \<Rightarrow> Registries \<Rightarrow> call list
    \<Rightarrow> (error + ManifestList) \<times> call list" where
  "transformsLoop [] i manifests builds regs tr = (Inr manifests, tr)"
| "transformsLoop (transform # rest) i manifests builds regs tr =
     (case transform manifests builds regs of
        Inl err \<Rightarrow> (Inl (Wrapped ''unable to transform manifests'' err), tr @ [CallTransform i])
      | Inr manifests1 \<Rightarrow>
          transformsLoop rest (Suc i) manifests1 builds regs (tr @ [CallTransform i]))"

definition renderManifests ::
  "collaborators \<Rightarrow> KustomizeDeployer \<Rightarrow> Artifact list \<Rightarrow> call list
    \<Rightarrow> (error + ManifestList) \<times> call list" where
  "renderManifests c k builds tr =
     (let tr1 = tr @ [CallCheckVersion]
                  @ (case CheckVersion c of Some _ \<Rightarrow> [CallVersion] | None \<Rightarrow> []);
          tr2 = tr1 @ [CallGetDebugHelpersRegistry]
      in case GetDebugHelpersRegistry c (globalConfig k) of
           Inl err \<Rightarrow> (Inl (Wrapped ''retrieving debug helpers registry'' err), tr2)
         | Inr debugHelpersRegistry \<Rightarrow>
             (case readManifests c k tr2 of
                (Inl err, tr3) \<Rightarrow> (Inl (Wrapped ''reading manifests'' err), tr3)
              | (Inr manifests, tr3) \<Rightarrow>
                  if length manifests = 0 then (Inr [], tr3)
                  else
                    (case ReplaceImages c manifests builds of
                       Inl err \<Rightarrow>
                         (Inl (Wrapped ''replacing images in manifests'' err),
                          tr3 @ [CallReplaceImages])
                     | Inr manifests1 \<Rightarrow>
                         (case transformsLoop (manifestTransforms c) 0 manifests1 builds
                                 \<lparr>InsecureRegistries = insecureRegistries k,
                                  DebugHelpersRegistry = debugHelpersRegistry\<rparr>
                                 (tr3 @ [CallReplaceImages]) of
                            (Inl err, tr4) \<Rightarrow> (Inl err, tr4)
                          | (Inr manifests2, tr4) \<Rightarrow>
                              (SetLabels c manifests2 (labels k), tr4 @ [CallSetLabels])))))"

text \<open>\<^verbatim>\<open>Deploy\<close>: the result and the calls and events of the run.\<close>

definition Deploy ::
  "collaborators \<Rightarrow> KustomizeDeployer \<Rightarrow> Artifact list \<Rightarrow> Result \<times> call list" where
  "Deploy c k builds =
     (case renderManifests c k builds [DeployInProgress] of
        (Inl err, tr) \<Rightarrow> (NewDeployErrorResult err, tr @ [DeployFailed err])
      | (Inr manifests, tr) \<Rightarrow>
          if length manifests = 0 then (NewDeploySuccessResult [], tr @ [DeployComplete])
          else
            (let (namespaces, nsErr) = CollectNamespaces c manifests;
                 tr1 = tr @ [CallCollectNamespaces]
                   @ (case nsErr of
                        Some err \<Rightarrow>
                          [DeployInfoEvent
                             (Wrapped (''could not fetch deployed resource namespace. ''
                                @ ''This might cause port-forward and deploy health-check to fail'')
                                err)]
                      | None \<Rightarrow> [])
             in case Apply c manifests of
                  Some err \<Rightarrow>
                    (NewDeployErrorResult err, tr1 @ [CallApply manifests, DeployFailed err])
                | None \<Rightarrow>
                    (NewDeploySuccessResult namespaces,
                     tr1 @ [CallApply manifests, DeployComplete])))"

text \<open>
  Modelled from the spec: \<^verbatim>\<open>stringSet\<close> with \<^verbatim>\<open>newStringSet\<close>, \<^verbatim>\<open>insert\<close> and
  \<^verbatim>\<open>toList\<close> is declared elsewhere in package deploy, not in kustomize.go. The
  spec has \<^verbatim>\<open>Dependencies()\<close> return a "sorted deduplicated list of paths": a set of
  strings, listed in increasing byte order.
\<close>

definition newStringSet :: "string set" where
  "newStringSet = {}"

definition insertAll :: "string set \<Rightarrow> string list \<Rightarrow> string set" where
  "insertAll s strings = s \<union> set strings"

definition toList :: "string set \<Rightarrow> string list" where
  "toList s = sorted_list_of_set s"

text \<open>The loop of \<^verbatim>\<open>Dependencies\<close> over \<^verbatim>\<open>k.KustomizePaths\<close>.\<close>

fun DependenciesLoop ::
  "nat \<Rightarrow> env \<Rightarrow> string list \<Rightarrow> string set \<Rightarrow> (error + string list) option" where
  "DependenciesLoop fuel fs [] deps = Some (Inr (toList deps))"
| "DependenciesLoop fuel fs (kustomizePath # rest) deps =
     (case dependenciesForKustomization fuel fs kustomizePath of
        None \<Rightarrow> None
      | Some (Inl err) \<Rightarrow> Some (Inl err)
      | Some (Inr depsForKustomization) \<Rightarrow>
          DependenciesLoop fuel fs rest (insertAll deps depsForKustomization))"

definition Dependencies ::
  "nat \<Rightarrow> env \<Rightarrow> KustomizeDeployer \<Rightarrow> (error + string list) option" where
  "Dependencies fuel fs k = DependenciesLoop fuel fs (KustomizePaths k) newStringSet"

text \<open>The two predicates that classify a changed file.\<close>

definition IsKustomizationBase :: "string \<Rightarrow> bool" where
  "IsKustomizationBase path = (Dir path = basePath)"

fun filenameIn :: "string \<Rightarrow> string list \<Rightarrow> bool" where
  "filenameIn filename [] = False"
| "filenameIn filename (candidate # rest) =
     (if filename = candidate then True else filenameIn filename rest)"

definition IsKustomizationPath :: "string \<Rightarrow> bool" where
  "IsKustomizationPath path = filenameIn (Base path) kustomizeFilePaths"

section \<open>The specification's words\<close>

text \<open>
  The path at which a candidate is looked for: the candidate itself when it is absolute,
  the candidate joined with the working directory otherwise.
\<close>

definition localPath :: "string \<Rightarrow> string \<Rightarrow> string" where
  "localPath dir candidate = (if IsAbs candidate then candidate else Join dir candidate)"

text \<open>
  What one candidate of the combined list of bases and resources contributes, as the
  specification words it: nothing when it does not exist locally; when it is a local
  directory, the result of resolving it, that is, the directory that was found; when it
  is a local file, its path joined with the current directory.
\<close>

definition candidateContribution ::
  "(string \<Rightarrow> (error + string list) option) \<Rightarrow> env \<Rightarrow> string \<Rightarrow> string
    \<Rightarrow> (error + string list) option" where
  "candidateContribution recurse fs dir candidate =
     (case Stat fs (localPath dir candidate) of
        None \<Rightarrow> Some (Inr [])
      | Some mode \<Rightarrow>
          if IsDir mode then recurse (localPath dir candidate)
          else Some (Inr [Join dir candidate]))"

text \<open>
  What one generator contributes, as the specification words it: the resolved paths of
  \<^verbatim>\<open>files\<close>, then the resolved paths of \<^verbatim>\<open>envs\<close> with \<^verbatim>\<open>env\<close> appended once when it
  is not empty.
\<close>

definition configMapGeneratorDeps :: "string \<Rightarrow> configMapGenerator \<Rightarrow> string list" where
  "configMapGeneratorDeps dir g =
     AbsolutePaths dir (configMapGenerator.Files g)
     @ AbsolutePaths dir (configMapGenerator.Envs g
         @ (if configMapGenerator.Env g = [] then [] else [configMapGenerator.Env g]))"

definition secretGeneratorDeps :: "string \<Rightarrow> secretGenerator \<Rightarrow> string list" where
  "secretGeneratorDeps dir g =
     AbsolutePaths dir (secretGenerator.Files g)
     @ AbsolutePaths dir (secretGenerator.Envs g
         @ (if secretGenerator.Env g = [] then [] else [secretGenerator.Env g]))"

text \<open>The calls that transform manifests, and the calls that apply them.\<close>

fun isTransformCall :: "call \<Rightarrow> bool" where
  "isTransformCall CallReplaceImages = True"
| "isTransformCall (CallTransform i) = True"
| "isTransformCall CallSetLabels = True"
| "isTransformCall _ = False"

fun isApplyCall :: "call \<Rightarrow> bool" where
  "isApplyCall (CallApply manifests) = True"
| "isApplyCall _ = False"

section \<open>An example overlay\<close>

text \<open>
  A filesystem with an overlay in the current directory, its base in \<^verbatim>\<open>base\<close>, a directory
  \<^verbatim>\<open>empty\<close> without a configuration file, a directory \<^verbatim>\<open>broken\<close> whose configuration
  file cannot be read and a directory \<^verbatim>\<open>malformed\<close> whose configuration file does not
  parse. The overlay in \<^verbatim>\<open>nested\<close> names the base and the broken directory; the overlays
  in \<^verbatim>\<open>absolute\<close> and in the root directory name the directory \<^verbatim>\<open>/abs/dir\<close>, which has a
  configuration file of its own, and the file \<^verbatim>\<open>/abs/file.yaml\<close> by their absolute paths.
  Files have mode 0644, directories 0755 with the directory bit.
\<close>

definition exampleStat :: "string \<Rightarrow> 32 word option" where
  "exampleStat p =
     (if p \<in> {''kustomization.yaml'', ''base/kustomization.yaml'', ''deployment.yaml'',
               ''/abs/file.yaml'', ''base/service.yaml'', ''broken/kustomization.yaml'',
               ''malformed/kustomization.yml'', ''/abs/dir/kustomization.yaml'',
               ''/abs/dir/service.yaml'', ''absolute/kustomization.yaml'',
               ''/kustomization.yaml'', ''nested/kustomization.yaml''}
      then Some 420
      else if p \<in> {''base'', ''empty'', ''broken'', ''malformed'', ''/abs/dir'', ''absolute'',
                    ''nested'', ''/''}
      then Some (ModeDir OR 493)
      else None)"

definition exampleConfigMapGenerator :: configMapGenerator where
  "exampleConfigMapGenerator =
     \<lparr>configMapGenerator.Files = [''cfg.properties'', ''/etc/app.conf''],
      configMapGenerator.Env = ''a.env'',
      configMapGenerator.Envs = [''b.env'']\<rparr>"

definition exampleSecretGenerator :: secretGenerator where
  "exampleSecretGenerator =
     \<lparr>secretGenerator.Files = [''secret.txt'', ''/run/secrets/token''],
      secretGenerator.Env = [],
      secretGenerator.Envs = [''c.env'']\<rparr>"

definition overlayDocument :: yamlDocument where
  "overlayDocument =
     \<lparr>docBases = [''base''],
      docResources = [''deployment.yaml'', ''/abs/file.yaml'', ''github.com/org/repo'', ''empty''],
      docPatches =
        [\<lparr>intoPatchPath = (\<lambda>pp. (\<lparr>patchPath.Path = ''p1.yaml'', patchPath.Patch = []\<rparr>, None)),
          intoString = Inl (Error ''cannot unmarshal !!map into string'')\<rparr>,
         \<lparr>intoPatchPath = (\<lambda>pp. (pp, Some (Error ''cannot unmarshal !!str into patchPath''))),
          intoString = Inr ''p2.yaml''\<rparr>],
      docPatchesStrategicMerge =
        [\<lparr>Style = 0, Value = ''patch.yaml''\<rparr>,
         \<lparr>Style = DoubleQuotedStyle, Value = ''spec: {}''\<rparr>,
         \<lparr>Style = LiteralStyle, Value = ''kind: Deployment''\<rparr>],
      docCRDs = [''/abs/crd.yaml'', ''crd.yaml''],
      docPatchesJSON6902 = [\<lparr>patchJSON6902.Path = ''j.yaml''\<rparr>],
      docConfigMapGenerator = [exampleConfigMapGenerator],
      docSecretGenerator = [exampleSecretGenerator]\<rparr>"

definition baseDocument :: yamlDocument where
  "baseDocument =
     \<lparr>docBases = [], docResources = [''service.yaml''], docPatches = [],
      docPatchesStrategicMerge = [], docCRDs = [], docPatchesJSON6902 = [],
      docConfigMapGenerator = [], docSecretGenerator = []\<rparr>"

definition absoluteDocument :: yamlDocument where
  "absoluteDocument =
     \<lparr>docBases = [], docResources = [''/abs/dir'', ''/abs/file.yaml''], docPatches = [],
      docPatchesStrategicMerge = [], docCRDs = [], docPatchesJSON6902 = [],
      docConfigMapGenerator = [], docSecretGenerator = []\<rparr>"

definition nestedDocument :: yamlDocument where
  "nestedDocument =
     \<lparr>docBases = [''../base''], docResources = [''../broken''], docPatches = [],
      docPatchesStrategicMerge = [], docCRDs = [], docPatchesJSON6902 = [],
      docConfigMapGenerator = [], docSecretGenerator = []\<rparr>"

definition exampleEnv :: env where
  "exampleEnv =
     \<lparr>Stat = exampleStat,
      ReadFile = (\<lambda>p. if p = ''kustomization.yaml'' then Inr ''overlay''
                       else if p = ''base/kustomization.yaml'' then Inr ''base''
                       else if p = ''/abs/dir/kustomization.yaml'' then Inr ''base''
                       else if p = ''absolute/kustomization.yaml'' then Inr ''absolute''
                       else if p = ''/kustomization.yaml'' then Inr ''absolute''
                       else if p = ''nested/kustomization.yaml'' then Inr ''nested''
                       else if p = ''malformed/kustomization.yml'' then Inr ''garbage''
                       else Inl (Error ''read error'')),
      Parse = (\<lambda>buf. if buf = ''overlay'' then Inr overlayDocument
                      else if buf = ''base'' then Inr baseDocument
                      else if buf = ''absolute'' then Inr absoluteDocument
                      else if buf = ''nested'' then Inr nestedDocument
                      else Inl (Error ''yaml: unmarshal error''))\<rparr>"

text \<open>The configuration that the overlay of the example decodes to.\<close>

definition overlayContent :: kustomization where
  "overlayContent =
     \<lparr>Bases = [''base''],
      Resources = [''deployment.yaml'', ''/abs/file.yaml'', ''github.com/org/repo'', ''empty''],
      Patches =
        [\<lparr>patchPath = \<lparr>patchPath.Path = ''p1.yaml'', patchPath.Patch = []\<rparr>\<rparr>,
         \<lparr>patchPath = \<lparr>patchPath.Path = ''p2.yaml'', patchPath.Patch = []\<rparr>\<rparr>],
      PatchesStrategicMerge =
        [\<lparr>strategicMergePatch.Path = ''patch.yaml'', strategicMergePatch.Patch = []\<rparr>,
         \<lparr>strategicMergePatch.Path = ''spec: {}'', strategicMergePatch.Patch = []\<rparr>,
         \<lparr>strategicMergePatch.Path = [], strategicMergePatch.Patch = ''kind: Deployment''\<rparr>],
      CRDs = [''/abs/crd.yaml'', ''crd.yaml''],
      PatchesJSON6902 = [\<lparr>patchJSON6902.Path = ''j.yaml''\<rparr>],
      ConfigMapGenerator = [exampleConfigMapGenerator],
      SecretGenerator = [exampleSecretGenerator]\<rparr>"




text \<open>What the candidates of the example overlay contribute, after the configuration file.\<close>

definition exampleCandidatesDeps :: "string list" where
  "exampleCandidatesDeps =
     [''kustomization.yaml'', ''base/kustomization.yaml'', ''base/service.yaml'',
      ''deployment.yaml'', ''abs/file.yaml'']"

text \<open>
  Collaborators for the example: the overlay in the current directory renders to nothing,
  the one in \<^verbatim>\<open>base\<close> to one manifest, any other path fails; \<^verbatim>\<open>Append\<close> adds the output
  as one manifest; the namespaces cannot be collected; \<^verbatim>\<open>Apply\<close> succeeds.
\<close>

definition exampleCollaborators :: collaborators where
  "exampleCollaborators =
     \<lparr>CheckVersion = None,
      Version = ''v1.18.0'',
      GetDebugHelpersRegistry = (\<lambda>_. Inr ''gcr.io/debug-helpers''),
      RunCmdOut = (\<lambda>cmd args.
        if args = [''build'', ''.''] then Inr []
        else if args = [''build'', ''base''] then Inr ''kind: Service''
        else Inl (Error ''exit status 1'')),
      Append = (\<lambda>l buf. l @ [buf]),
      ReplaceImages = (\<lambda>manifests builds. Inr manifests),
      manifestTransforms = [\<lambda>manifests builds regs. Inr manifests],
      SetLabels = (\<lambda>manifests ls. Inr manifests),
      CollectNamespaces = (\<lambda>manifests. ([], Some (Error ''no namespace''))),
      Apply = (\<lambda>manifests. None)\<rparr>"

definition deployerOf :: "string list \<Rightarrow> KustomizeDeployer" where
  "deployerOf paths =
     \<lparr>KustomizePaths = paths, BuildArgs = [], insecureRegistries = (\<lambda>_. False),
      labels = Map.empty, globalConfig = []\<rparr>"

definition exampleOutput :: "string \<Rightarrow> string" where
  "exampleOutput p = (if p = ''base'' then ''kind: Service'' else [])"

definition exampleDeps :: "string \<Rightarrow> string list" where
  "exampleDeps p =
     (if p = ''base'' then [''base/kustomization.yaml'', ''base/service.yaml'']
      else [''kustomization.yaml'', ''base/kustomization.yaml'', ''base/service.yaml'',
         ''deployment.yaml'', ''abs/file.yaml'', ''patch.yaml'', ''spec: {}'', ''/abs/crd.yaml'',
         ''crd.yaml'', ''p1.yaml'', ''p2.yaml'', ''j.yaml'', ''cfg.properties'',
         ''/etc/app.conf'', ''b.env'', ''a.env'', ''secret.txt'', ''/run/secrets/token'',
         ''c.env''])"

text \<open>The configuration that the overlay in \<^verbatim>\<open>nested\<close> decodes to.\<close>

definition nestedContent :: kustomization where
  "nestedContent =
     \<lparr>Bases = [''../base''], Resources = [''../broken''], Patches = [],
      PatchesStrategicMerge = [], CRDs = [], PatchesJSON6902 = [],
      ConfigMapGenerator = [], SecretGenerator = []\<rparr>"

text \<open>The configuration that the overlays in \<^verbatim>\<open>absolute\<close> and in the root decode to.\<close>

definition absoluteContent :: kustomization where
  "absoluteContent =
     \<lparr>Bases = [], Resources = [''/abs/dir'', ''/abs/file.yaml''], Patches = [],
      PatchesStrategicMerge = [], CRDs = [], PatchesJSON6902 = [],
      ConfigMapGenerator = [], SecretGenerator = []\<rparr>"

section \<open>Facts about the resolver\<close>

lemma pathExistsLocally_rel:
  "\<not> IsAbs f \<Longrightarrow> pathExistsLocally fs f dir =
     (case Stat fs (Join dir f) of Some mode \<Rightarrow> (True, mode) | None \<Rightarrow> (False, 0))"
  by (simp add: pathExistsLocally_def)

lemma pathExistsLocally_abs:
  "IsAbs f \<Longrightarrow> pathExistsLocally fs f dir =
     (case Stat fs f of Some mode \<Rightarrow> (True, mode) | None \<Rightarrow> (False, 0))"
  by (simp add: pathExistsLocally_def)

lemma kustomizeFilePaths_relative: "c \<in> set kustomizeFilePaths \<Longrightarrow> \<not> IsAbs c"
  by (auto simp: kustomizeFilePaths_def IsAbs_def)

lemma findConfigIn_none:
  "\<forall>c\<in>set cs. \<not> fst (pathExistsLocally fs c dir) \<Longrightarrow> \<exists>e. findConfigIn fs dir cs = Inl e"
  by (induction cs) auto

lemma findConfigIn_Inr:
  "findConfigIn fs dir cs = Inr path \<Longrightarrow>
     \<exists>c\<in>set cs. path = Join dir c \<and> fst (pathExistsLocally fs c dir)"
  by (induction cs) (auto split: if_splits)

lemma findKustomizationConfig_absent:
  assumes "\<forall>c\<in>set kustomizeFilePaths. Stat fs (Join dir c) = None"
  shows "\<exists>e. findKustomizationConfig fs dir = Inl e"
proof -
  have "\<forall>c\<in>set kustomizeFilePaths. \<not> fst (pathExistsLocally fs c dir)"
    using assms by (simp add: pathExistsLocally_rel kustomizeFilePaths_relative)
  then show ?thesis
    unfolding findKustomizationConfig_def by (rule findConfigIn_none)
qed

lemma findKustomizationConfig_exists:
  assumes "findKustomizationConfig fs dir = Inr path"
  shows "\<exists>c\<in>set kustomizeFilePaths. path = Join dir c \<and> Stat fs path \<noteq> None"
proof -
  from assms obtain c where c: "c \<in> set kustomizeFilePaths" "path = Join dir c"
      "fst (pathExistsLocally fs c dir)"
    unfolding findKustomizationConfig_def by (blast dest: findConfigIn_Inr)
  from c(1) have "\<not> IsAbs c" by (rule kustomizeFilePaths_relative)
  with c(3) have "Stat fs (Join dir c) \<noteq> None"
    by (auto simp: pathExistsLocally_rel split: option.splits)
  with c show ?thesis by blast
qed

lemma candidatesLoop_error:
  "candidatesLoop recurse fs dir cs deps = Some (Inl e) \<Longrightarrow>
     \<exists>c\<in>set cs. recurse (Join dir c) = Some (Inl e)"
proof (induction cs arbitrary: deps)
  case Nil
  then show ?case by simp
next
  case (Cons c cs)
  then show ?case
    by (auto split: prod.splits bool.splits if_splits option.splits sum.splits)
qed

lemma candidatesLoop_mono:
  assumes "\<And>d r. recurse d = Some r \<Longrightarrow> recurse' d = Some r"
  shows "candidatesLoop recurse fs dir cs deps = Some r \<Longrightarrow>
     candidatesLoop recurse' fs dir cs deps = Some r"
proof (induction cs arbitrary: deps)
  case Nil
  then show ?case by simp
next
  case (Cons c cs)
  then show ?case using assms
    by (auto split: prod.splits bool.splits if_splits option.splits sum.splits)
qed

text \<open>A run that returns with some number of nested calls returns the same with more.\<close>

lemma dependenciesForKustomization_Suc:
  "dependenciesForKustomization n fs dir = Some r \<Longrightarrow>
     dependenciesForKustomization (Suc n) fs dir = Some r"
proof (induction n arbitrary: dir r)
  case 0
  then show ?case by simp
next
  case (Suc n)
  have mono: "\<And>cs deps r. candidatesLoop (dependenciesForKustomization n fs) fs dir cs deps = Some r
      \<Longrightarrow> candidatesLoop (dependenciesForKustomization (Suc n) fs) fs dir cs deps = Some r"
    using candidatesLoop_mono[of "dependenciesForKustomization n fs"
        "dependenciesForKustomization (Suc n) fs"] Suc.IH by blast
  from Suc.prems show ?case
    unfolding dependenciesForKustomization.simps(2)[of "Suc n" fs dir]
      dependenciesForKustomization.simps(2)[of n fs dir]
    by (auto split: sum.splits option.splits dest!: mono)
qed

lemma dependenciesForKustomization_mono:
  "dependenciesForKustomization n fs dir = Some r \<Longrightarrow>
     dependenciesForKustomization (n + k) fs dir = Some r"
  by (induction k) (auto dest: dependenciesForKustomization_Suc)

lemma dependenciesForKustomization_found:
  assumes "findKustomizationConfig fs dir = Inr path" and "ReadFile fs path = Inr buf"
    and "yaml_Unmarshal fs buf = Inr content"
  shows "dependenciesForKustomization (Suc n) fs dir =
     (case candidatesLoop (dependenciesForKustomization n fs) fs dir
             (Bases content @ Resources content) [path] of
        None \<Rightarrow> None
      | Some (Inl err) \<Rightarrow> Some (Inl err)
      | Some (Inr deps) \<Rightarrow> Some (Inr (afterCandidates dir content deps)))"
  using assms by (simp add: dependenciesForKustomization.simps(2))

lemma dependenciesForKustomization_error:
  "dependenciesForKustomization n fs dir = Some (Inl e) \<Longrightarrow>
     \<exists>d path. findKustomizationConfig fs d = Inr path \<and>
       (ReadFile fs path = Inl e \<or>
        (\<exists>buf. ReadFile fs path = Inr buf \<and> yaml_Unmarshal fs buf = Inl e))"
proof (induction n arbitrary: dir)
  case 0
  then show ?case by simp
next
  case (Suc n)
  show ?case
  proof (cases "findKustomizationConfig fs dir")
    case (Inl a)
    with Suc.prems show ?thesis by (simp add: dependenciesForKustomization.simps(2))
  next
    case (Inr path)
    note cfg = this
    show ?thesis
    proof (cases "ReadFile fs path")
      case (Inl a)
      with Suc.prems cfg show ?thesis by (auto simp: dependenciesForKustomization.simps(2))
    next
      case (Inr buf)
      note rd = this
      show ?thesis
      proof (cases "yaml_Unmarshal fs buf")
        case (Inl a)
        with Suc.prems cfg rd show ?thesis by (auto simp: dependenciesForKustomization.simps(2))
      next
        case (Inr content)
        with Suc.prems cfg rd
        have "candidatesLoop (dependenciesForKustomization n fs) fs dir
                (Bases content @ Resources content) [path] = Some (Inl e)"
          by (auto simp: dependenciesForKustomization_found split: option.splits sum.splits)
        then obtain c where "dependenciesForKustomization n fs (Join dir c) = Some (Inl e)"
          by (blast dest: candidatesLoop_error)
        then show ?thesis by (rule Suc.IH)
      qed
    qed
  qed
qed

lemma foldl_append_concat:
  "(\<And>acc x. step acc x = acc @ f x) \<Longrightarrow> foldl step acc xs = acc @ concat (map f xs)"
  by (induction xs arbitrary: acc) simp_all

lemma candidatesLoop_contributions:
  "\<forall>c\<in>set cs. \<not> IsAbs c \<Longrightarrow>
   \<forall>c\<in>set cs. candidateContribution recurse fs dir c = Some (Inr (g c)) \<Longrightarrow>
     candidatesLoop recurse fs dir cs deps = Some (Inr (deps @ concat (map g cs)))"
proof (induction cs arbitrary: deps)
  case Nil
  then show ?case by simp
next
  case (Cons c cs)
  from Cons.prems have rel: "\<not> IsAbs c" and rels: "\<forall>c\<in>set cs. \<not> IsAbs c"
    and c: "candidateContribution recurse fs dir c = Some (Inr (g c))"
    and rest: "\<forall>c\<in>set cs. candidateContribution recurse fs dir c = Some (Inr (g c))"
    by simp_all
  note IH = Cons.IH[OF rels rest]
  show ?case
  proof (cases "Stat fs (Join dir c)")
    case None
    with rel c show ?thesis
      by (simp add: candidateContribution_def localPath_def pathExistsLocally_rel IH)
  next
    case (Some mode)
    with rel c show ?thesis
      by (cases "IsDir mode")
        (simp_all add: candidateContribution_def localPath_def pathExistsLocally_rel IH)
  qed
qed

lemma strategicMerge_fold:
  "foldl (strategicMergeStep dir) acc ps =
     acc @ map (\<lambda>p. Join dir (strategicMergePatch.Path p))
       (filter (\<lambda>p. strategicMergePatch.Path p \<noteq> []) ps)"
  by (induction ps arbitrary: acc) (simp_all add: strategicMergeStep_def)

lemma patch_fold:
  "foldl (patchStep dir) acc ps =
     acc @ map (\<lambda>p. Join dir (patchPath.Path (patchPath p)))
       (filter (\<lambda>p. patchPath.Path (patchPath p) \<noteq> []) ps)"
  by (induction ps arbitrary: acc) (simp_all add: patchStep_def)

lemma jsonPatch_fold:
  "foldl (jsonPatchStep dir) acc ps =
     acc @ map (\<lambda>p. Join dir (patchJSON6902.Path p))
       (filter (\<lambda>p. patchJSON6902.Path p \<noteq> []) ps)"
  by (induction ps arbitrary: acc) (simp_all add: jsonPatchStep_def)

lemma configMapGenerator_fold:
  "foldl (configMapGeneratorStep dir) acc gs = acc @ concat (map (configMapGeneratorDeps dir) gs)"
  by (rule foldl_append_concat)
    (simp add: configMapGeneratorStep_def configMapGeneratorDeps_def Let_def)

lemma secretGenerator_fold:
  "foldl (secretGeneratorStep dir) acc gs = acc @ concat (map (secretGeneratorDeps dir) gs)"
  by (rule foldl_append_concat)
    (simp add: secretGeneratorStep_def secretGeneratorDeps_def Let_def)

lemma afterCandidates_parts:
  "afterCandidates dir content deps0 =
     deps0
     @ map (\<lambda>p. Join dir (strategicMergePatch.Path p))
         (filter (\<lambda>p. strategicMergePatch.Path p \<noteq> []) (PatchesStrategicMerge content))
     @ AbsolutePaths dir (CRDs content)
     @ map (\<lambda>p. Join dir (patchPath.Path (patchPath p)))
         (filter (\<lambda>p. patchPath.Path (patchPath p) \<noteq> []) (Patches content))
     @ map (\<lambda>p. Join dir (patchJSON6902.Path p))
         (filter (\<lambda>p. patchJSON6902.Path p \<noteq> []) (PatchesJSON6902 content))
     @ concat (map (configMapGeneratorDeps dir) (ConfigMapGenerator content))
     @ concat (map (secretGeneratorDeps dir) (SecretGenerator content))"
  by (simp add: afterCandidates_def Let_def strategicMerge_fold patch_fold jsonPatch_fold
      configMapGenerator_fold secretGenerator_fold)

lemma afterCandidates_append:
  "afterCandidates dir content deps0 = deps0 @ afterCandidates dir content []"
  by (simp add: afterCandidates_parts)

text \<open>
  For candidates that are relative paths the resolver does what the specification says:
  it returns the path of the configuration file, then what each candidate contributes,
  in order, then what the other fields add.
\<close>

lemma relative_candidates_in_order:
  assumes found: "findKustomizationConfig fs dir = Inr path" and rd: "ReadFile fs path = Inr buf"
    and um: "yaml_Unmarshal fs buf = Inr content"
    and rel: "\<forall>c\<in>set (Bases content @ Resources content). \<not> IsAbs c"
    and cs: "\<forall>c\<in>set (Bases content @ Resources content).
         candidateContribution (dependenciesForKustomization n fs) fs dir c = Some (Inr (g c))"
  shows "dependenciesForKustomization (Suc n) fs dir =
        Some (Inr ([path] @ concat (map g (Bases content @ Resources content))
                   @ afterCandidates dir content []))"
proof -
  have "candidatesLoop (dependenciesForKustomization n fs) fs dir
          (Bases content @ Resources content) [path] =
        Some (Inr ([path] @ concat (map g (Bases content @ Resources content))))"
    using rel cs by (rule candidatesLoop_contributions)
  then show ?thesis
    using afterCandidates_append[of dir content
        "[path] @ concat (map g (Bases content @ Resources content))"]
    by (simp add: dependenciesForKustomization_found[OF found rd um])
qed

lemma Split_no_sep: "e \<in> set (Split sep s) \<Longrightarrow> sep \<notin> set e"
proof (induction s arbitrary: e)
  case Nil
  then show ?case by simp
next
  case (Cons c cs)
  then show ?case
    by (cases "Split sep cs") (auto split: if_splits)
qed

lemma cleanStep_elements:
  assumes "\<forall>e\<in>set out. e \<noteq> [] \<and> CHR ''/'' \<notin> set e" and "CHR ''/'' \<notin> set elem"
  shows "\<forall>e\<in>set (cleanStep rooted out elem). e \<noteq> [] \<and> CHR ''/'' \<notin> set e"
  using assms by (auto simp: cleanStep_def split: list.splits)

lemma foldl_cleanStep_elements:
  "\<forall>e\<in>set out. e \<noteq> [] \<and> CHR ''/'' \<notin> set e \<Longrightarrow> \<forall>x\<in>set xs. CHR ''/'' \<notin> set x \<Longrightarrow>
     \<forall>e\<in>set (foldl (cleanStep rooted) out xs). e \<noteq> [] \<and> CHR ''/'' \<notin> set e"
proof (induction xs arbitrary: out)
  case Nil
  then show ?case by simp
next
  case (Cons x xs)
  from Cons.prems(2) have x: "CHR ''/'' \<notin> set x" and xs: "\<forall>x\<in>set xs. CHR ''/'' \<notin> set x"
    by simp_all
  have "\<forall>e\<in>set (cleanStep rooted out x). e \<noteq> [] \<and> CHR ''/'' \<notin> set e"
    using Cons.prems(1) x by (rule cleanStep_elements)
  then have "\<forall>e\<in>set (foldl (cleanStep rooted) (cleanStep rooted out x) xs).
      e \<noteq> [] \<and> CHR ''/'' \<notin> set e"
    using xs by (rule Cons.IH)
  then show ?case by simp
qed

lemma joinSep_relative:
  "\<forall>e\<in>set xs. e \<noteq> [] \<and> CHR ''/'' \<notin> set e \<Longrightarrow> \<not> IsAbs (joinSep xs)"
proof (cases xs)
  case Nil
  then show ?thesis by (simp add: IsAbs_def)
next
  case (Cons x ys)
  assume "\<forall>e\<in>set xs. e \<noteq> [] \<and> CHR ''/'' \<notin> set e"
  with Cons obtain c cs where x: "x = c # cs" "c \<noteq> CHR ''/''"
    by (cases x) auto
  show ?thesis
    using Cons x by (cases ys) (simp_all add: IsAbs_def)
qed

lemma Clean_relative: "\<not> IsAbs p \<Longrightarrow> \<not> IsAbs (Clean p)"
proof -
  assume rel: "\<not> IsAbs p"
  have "\<forall>x\<in>set (Split (CHR ''/'') p). CHR ''/'' \<notin> set x"
    by (simp add: Split_no_sep)
  have "\<forall>e\<in>set ([]::string list). e \<noteq> [] \<and> CHR ''/'' \<notin> set e"
    by simp
  then have "\<forall>e\<in>set (foldl (cleanStep False) [] (Split (CHR ''/'') p)).
      e \<noteq> [] \<and> CHR ''/'' \<notin> set e"
    using \<open>\<forall>x\<in>set (Split (CHR ''/'') p). CHR ''/'' \<notin> set x\<close>
    by (rule foldl_cleanStep_elements)
  then have "\<forall>e\<in>set (rev (foldl (cleanStep False) [] (Split (CHR ''/'') p))).
      e \<noteq> [] \<and> CHR ''/'' \<notin> set e"
    by simp
  then have "\<not> IsAbs (joinSep (rev (foldl (cleanStep False) [] (Split (CHR ''/'') p))))"
    by (rule joinSep_relative)
  with rel show ?thesis
    by (simp add: Clean_def Let_def) (simp add: IsAbs_def)
qed

lemma Join_relative: "dir \<noteq> [] \<Longrightarrow> \<not> IsAbs dir \<Longrightarrow> \<not> IsAbs (Join dir c)"
proof -
  assume "dir \<noteq> []" "\<not> IsAbs dir"
  then have "\<not> IsAbs (dir @ ''/'' @ c)"
    by (cases dir) (simp_all add: IsAbs_def)
  then have "\<not> IsAbs (Clean (dir @ ''/'' @ c))"
    by (rule Clean_relative)
  with \<open>dir \<noteq> []\<close> show ?thesis by (simp add: Join_def)
qed

lemma AbsolutePaths_absolute: "IsAbs p \<Longrightarrow> AbsolutePaths dir [p] = [p]"
  by (simp add: AbsolutePaths_def)

lemma AbsolutePaths_member: "IsAbs p \<Longrightarrow> p \<in> set ps \<Longrightarrow> p \<in> set (AbsolutePaths dir ps)"
  by (force simp: AbsolutePaths_def)

lemma set_afterCandidates:
  "set (afterCandidates dir content deps0) =
     set deps0
     \<union> (\<lambda>p. Join dir (strategicMergePatch.Path p))
         ` {p \<in> set (PatchesStrategicMerge content). strategicMergePatch.Path p \<noteq> []}
     \<union> set (AbsolutePaths dir (CRDs content))
     \<union> (\<lambda>p. Join dir (patchPath.Path (patchPath p)))
         ` {p \<in> set (Patches content). patchPath.Path (patchPath p) \<noteq> []}
     \<union> (\<lambda>p. Join dir (patchJSON6902.Path p))
         ` {p \<in> set (PatchesJSON6902 content). patchJSON6902.Path p \<noteq> []}
     \<union> (\<Union>g\<in>set (ConfigMapGenerator content). set (configMapGeneratorDeps dir g))
     \<union> (\<Union>g\<in>set (SecretGenerator content). set (secretGeneratorDeps dir g))"
  unfolding afterCandidates_parts by (simp add: Un_assoc)

lemma absolute_candidate_probe: "IsAbs cand \<Longrightarrow> Stat fs cand = Some mode \<Longrightarrow>
    pathExistsLocally fs cand dir = (True, mode)"
  by (simp add: pathExistsLocally_abs)

lemma local_candidate_step: "pathExistsLocally fs cand dir = (True, mode) \<Longrightarrow>
  candidatesLoop recurse fs dir (cand # rest) deps =
          (if IsDir mode
           then (case recurse (Join dir cand) of
                   None \<Rightarrow> None
                 | Some (Inl err) \<Rightarrow> Some (Inl err)
                 | Some (Inr candidateDeps) \<Rightarrow>
                     candidatesLoop recurse fs dir rest (deps @ candidateDeps))
           else candidatesLoop recurse fs dir rest (deps @ [Join dir cand]))"
  by simp

lemma absolute_candidate_rejoined: "IsAbs cand \<Longrightarrow> dir \<noteq> [] \<Longrightarrow> \<not> IsAbs dir \<Longrightarrow>
   \<not> IsAbs (Join dir cand) \<and> Join dir cand \<noteq> cand"
  using Join_relative[of dir cand] by metis

lemma absolute_crd_kept: "IsAbs cand \<Longrightarrow> cand \<in> set (CRDs content) \<Longrightarrow>
   cand \<in> set (afterCandidates dir content deps)"
  unfolding set_afterCandidates by (blast intro: AbsolutePaths_member)

lemma absolute_configMap_file_kept: "IsAbs cand \<Longrightarrow> cm \<in> set (ConfigMapGenerator content) \<Longrightarrow>
      cand \<in> set (configMapGenerator.Files cm) \<Longrightarrow> cand \<in> set (afterCandidates dir content deps)"
proof -
  assume a: "IsAbs cand" "cm \<in> set (ConfigMapGenerator content)"
      "cand \<in> set (configMapGenerator.Files cm)"
  have "cand \<in> set (configMapGeneratorDeps dir cm)"
    using AbsolutePaths_member[OF a(1,3), of dir] by (simp add: configMapGeneratorDeps_def)
  with a(2) show ?thesis unfolding set_afterCandidates by blast
qed

lemma absolute_secret_file_kept: "IsAbs cand \<Longrightarrow> sg \<in> set (SecretGenerator content) \<Longrightarrow>
      cand \<in> set (secretGenerator.Files sg) \<Longrightarrow> cand \<in> set (afterCandidates dir content deps)"
proof -
  assume a: "IsAbs cand" "sg \<in> set (SecretGenerator content)"
      "cand \<in> set (secretGenerator.Files sg)"
  have "cand \<in> set (secretGeneratorDeps dir sg)"
    using AbsolutePaths_member[OF a(1,3), of dir] by (simp add: secretGeneratorDeps_def)
  with a(2) show ?thesis unfolding set_afterCandidates by blast
qed

lemma strategicMerge_classified:
  "fst (strategicMergePatch_UnmarshalYAML zeroStrategicMergePatch node) =
     (if Style node \<in> {0, DoubleQuotedStyle, SingleQuotedStyle}
      then \<lparr>strategicMergePatch.Path = Value node, strategicMergePatch.Patch = []\<rparr>
      else \<lparr>strategicMergePatch.Path = [], strategicMergePatch.Patch = Value node\<rparr>)"
  by (simp add: strategicMergePatch_UnmarshalYAML_def zeroStrategicMergePatch_def)

lemma block_styles_not_path:
  "LiteralStyle \<notin> {0, DoubleQuotedStyle, SingleQuotedStyle}"
  "FoldedStyle \<notin> {0, DoubleQuotedStyle, SingleQuotedStyle}"
  by (simp_all add: LiteralStyle_def FoldedStyle_def DoubleQuotedStyle_def SingleQuotedStyle_def)

lemma strategicMerge_paths_of_nodes:
  "map (\<lambda>p. Join dir (strategicMergePatch.Path p))
     (filter (\<lambda>p. strategicMergePatch.Path p \<noteq> [])
        (map (\<lambda>n. fst (strategicMergePatch_UnmarshalYAML zeroStrategicMergePatch n)) nodes)) =
   map (\<lambda>node. Join dir (Value node))
     (filter (\<lambda>node. Style node \<in> {0, DoubleQuotedStyle, SingleQuotedStyle} \<and> Value node \<noteq> [])
        nodes)"
  by (induction nodes) (simp_all add: strategicMerge_classified)

lemma decodeKustomization_strategicMerge:
  "decodeKustomization d = Inr content \<Longrightarrow>
     PatchesStrategicMerge content =
       map (\<lambda>n. fst (strategicMergePatch_UnmarshalYAML zeroStrategicMergePatch n))
         (docPatchesStrategicMerge d)"
  by (auto simp: decodeKustomization_def split: sum.splits prod.splits if_splits)

lemma afterCandidates_without_strategicMerge:
  "afterCandidates dir content deps0 =
     deps0
     @ map (\<lambda>p. Join dir (strategicMergePatch.Path p))
         (filter (\<lambda>p. strategicMergePatch.Path p \<noteq> []) (PatchesStrategicMerge content))
     @ afterCandidates dir (content\<lparr>PatchesStrategicMerge := []\<rparr>) []"
  by (simp add: afterCandidates_parts)

lemma afterCandidates_without_generators:
  "afterCandidates dir content deps0 =
     afterCandidates dir (content\<lparr>ConfigMapGenerator := [], SecretGenerator := []\<rparr>) deps0
     @ concat (map (configMapGeneratorDeps dir) (ConfigMapGenerator content))
     @ concat (map (secretGeneratorDeps dir) (SecretGenerator content))"
  by (simp add: afterCandidates_parts)

lemma joinSep_single:
  "joinSep xs = s \<Longrightarrow> CHR ''/'' \<notin> set s \<Longrightarrow> s \<noteq> [] \<Longrightarrow> xs = [s]"
proof (cases xs)
  case Nil
  assume "joinSep xs = s" "s \<noteq> []"
  with Nil show ?thesis by simp
next
  case (Cons x ys)
  assume js: "joinSep xs = s" and nosep: "CHR ''/'' \<notin> set s"
  show ?thesis
  proof (cases ys)
    case Nil
    with Cons js show ?thesis by simp
  next
    case (Cons y zs)
    with \<open>xs = x # ys\<close> js have "CHR ''/'' \<in> set s" by auto
    with nosep show ?thesis by simp
  qed
qed

lemma Clean_eq_base:
  "(Clean d = ''base'') =
     (d \<noteq> [] \<and> \<not> IsAbs d \<and> rev (foldl (cleanStep False) [] (Split (CHR ''/'') d)) = [''base''])"
proof (cases "d = []")
  case True
  then show ?thesis by (simp add: Clean_def)
next
  case False
  note ne = this
  show ?thesis
  proof (cases "IsAbs d")
    case True
    with ne show ?thesis by (simp add: Clean_def Let_def)
  next
    case False
    let ?xs = "rev (foldl (cleanStep False) [] (Split (CHR ''/'') d))"
    have c: "Clean d = (if joinSep ?xs = [] then ''.'' else joinSep ?xs)"
      using ne False by (simp add: Clean_def Let_def)
    show ?thesis
    proof
      assume "Clean d = ''base''"
      with c have "joinSep ?xs = ''base''"
        by (auto split: if_splits)
      then have "?xs = [''base'']"
        by (rule joinSep_single) simp_all
      with ne False show "d \<noteq> [] \<and> \<not> IsAbs d \<and> ?xs = [''base'']" by simp
    next
      assume "d \<noteq> [] \<and> \<not> IsAbs d \<and> ?xs = [''base'']"
      then have "?xs = [''base'']" by simp
      with c show "Clean d = ''base''" by simp
    qed
  qed
qed

lemma filenameIn_set: "filenameIn f cs = (f \<in> set cs)"
  by (induction cs) auto

lemma DependenciesLoop_union:
  "\<forall>p\<in>set ps. dependenciesForKustomization fuel fs p = Some (Inr (g p)) \<Longrightarrow>
     DependenciesLoop fuel fs ps acc = Some (Inr (toList (acc \<union> (\<Union>p\<in>set ps. set (g p)))))"
proof (induction ps arbitrary: acc)
  case Nil
  then show ?case by simp
next
  case (Cons p ps)
  from Cons.prems have p: "dependenciesForKustomization fuel fs p = Some (Inr (g p))"
    and rest: "\<forall>p\<in>set ps. dependenciesForKustomization fuel fs p = Some (Inr (g p))"
    by simp_all
  have "DependenciesLoop fuel fs (p # ps) acc =
      DependenciesLoop fuel fs ps (insertAll acc (g p))"
    by (simp add: p)
  also have "\<dots> = Some (Inr (toList (insertAll acc (g p) \<union> (\<Union>p\<in>set ps. set (g p)))))"
    using rest by (rule Cons.IH)
  also have "insertAll acc (g p) \<union> (\<Union>p\<in>set ps. set (g p)) =
      acc \<union> (\<Union>p\<in>set (p # ps). set (g p))"
    by (auto simp: insertAll_def)
  finally show ?case .
qed

lemma DependenciesLoop_abort:
  "\<forall>p\<in>set ps. dependenciesForKustomization fuel fs p = Some (Inr (g p)) \<Longrightarrow>
   dependenciesForKustomization fuel fs q = Some (Inl e) \<Longrightarrow>
     DependenciesLoop fuel fs (ps @ q # rest) acc = Some (Inl e)"
proof (induction ps arbitrary: acc)
  case Nil
  then show ?case by simp
next
  case (Cons p ps)
  from Cons.prems have p: "dependenciesForKustomization fuel fs p = Some (Inr (g p))"
    and rest: "\<forall>p\<in>set ps. dependenciesForKustomization fuel fs p = Some (Inr (g p))"
    by simp_all
  have "DependenciesLoop fuel fs ((p # ps) @ q # rest) acc =
      DependenciesLoop fuel fs (ps @ q # rest) (insertAll acc (g p))"
    by (simp add: p)
  also have "\<dots> = Some (Inl e)"
    using rest Cons.prems(2) by (rule Cons.IH)
  finally show ?case .
qed

lemma readManifestsLoop_outputs:
  "\<forall>p\<in>set ps. RunCmdOut c ''kustomize'' (buildCommandArgs ba p) = Inr (out p) \<Longrightarrow>
     readManifestsLoop c ba ps ms tr =
       (Inr (foldl (Append c) ms (filter (\<lambda>buf. buf \<noteq> []) (map out ps))),
        tr @ map (\<lambda>p. CallRunCmdOut ''kustomize'' (buildCommandArgs ba p)) ps)"
proof (induction ps arbitrary: ms tr)
  case Nil
  then show ?case by simp
next
  case (Cons p ps)
  from Cons.prems have p: "RunCmdOut c ''kustomize'' (buildCommandArgs ba p) = Inr (out p)"
    and rest: "\<forall>p\<in>set ps. RunCmdOut c ''kustomize'' (buildCommandArgs ba p) = Inr (out p)"
    by simp_all
  note IH = Cons.IH[OF rest]
  show ?case
    by (cases "out p = []") (simp_all add: p IH Let_def)
qed

lemma foldl_snoc: "(\<And>l b. f l b = l @ [b]) \<Longrightarrow> foldl f ms xs = ms @ xs"
  by (induction xs arbitrary: ms) simp_all

lemma readManifestsLoop_no_apply:
  "filter isApplyCall (snd (readManifestsLoop c ba ps ms tr)) = filter isApplyCall tr"
proof (induction ps arbitrary: ms tr)
  case Nil
  then show ?case by simp
next
  case (Cons p ps)
  show ?case
    by (cases "RunCmdOut c ''kustomize'' (buildCommandArgs ba p)")
      (simp_all add: Let_def Cons.IH)
qed

lemma transformsLoop_no_apply:
  "filter isApplyCall (snd (transformsLoop ts i ms builds regs tr)) = filter isApplyCall tr"
proof (induction ts arbitrary: i ms tr)
  case Nil
  then show ?case by simp
next
  case (Cons t ts)
  show ?case
    by (cases "t ms builds regs") (simp_all add: Cons.IH)
qed

lemma renderManifests_no_apply:
  "filter isApplyCall (snd (renderManifests c k builds tr)) = filter isApplyCall tr"
proof -
  let ?tr2 = "tr @ [CallCheckVersion]
      @ (case CheckVersion c of Some _ \<Rightarrow> [CallVersion] | None \<Rightarrow> [])
      @ [CallGetDebugHelpersRegistry]"
  have tr2: "filter isApplyCall ?tr2 = filter isApplyCall tr"
    by (simp split: option.splits)
  show ?thesis
  proof (cases "GetDebugHelpersRegistry c (globalConfig k)")
    case (Inl err)
    then show ?thesis using tr2 by (simp add: renderManifests_def Let_def)
  next
    case (Inr reg)
    obtain r tr3 where rm: "readManifests c k ?tr2 = (r, tr3)"
      by (cases "readManifests c k ?tr2")
    have tr3: "filter isApplyCall tr3 = filter isApplyCall tr"
      using readManifestsLoop_no_apply[of c "BuildArgs k" "KustomizePaths k" "[]" ?tr2] rm tr2
      by (simp add: readManifests_def)
    show ?thesis
    proof (cases r)
      case (Inl err)
      with Inr rm tr3 show ?thesis by (simp add: renderManifests_def Let_def)
    next
      case (Inr manifests)
      note ms = this
      show ?thesis
      proof (cases "manifests = []")
        case True
        with \<open>GetDebugHelpersRegistry c (globalConfig k) = Inr reg\<close> rm ms tr3
        show ?thesis by (simp add: renderManifests_def Let_def)
      next
        case False
        note ne = this
        show ?thesis
        proof (cases "ReplaceImages c manifests builds")
          case (Inl err)
          with \<open>GetDebugHelpersRegistry c (globalConfig k) = Inr reg\<close> rm ms tr3 ne
          show ?thesis by (simp add: renderManifests_def Let_def)
        next
          case (Inr manifests1)
          let ?regs = "\<lparr>InsecureRegistries = insecureRegistries k, DebugHelpersRegistry = reg\<rparr>"
          obtain r4 tr4 where tl: "transformsLoop (manifestTransforms c) 0 manifests1 builds
              ?regs (tr3 @ [CallReplaceImages]) = (r4, tr4)"
            by (cases "transformsLoop (manifestTransforms c) 0 manifests1 builds
              ?regs (tr3 @ [CallReplaceImages])")
          have tr4: "filter isApplyCall tr4 = filter isApplyCall tr"
            using transformsLoop_no_apply[of "manifestTransforms c" 0 manifests1 builds ?regs
                "tr3 @ [CallReplaceImages]"] tl tr3
            by simp
          show ?thesis
            using \<open>GetDebugHelpersRegistry c (globalConfig k) = Inr reg\<close> rm ms ne Inr tl tr4
            by (cases r4) (simp_all add: renderManifests_def Let_def)
        qed
      qed
    qed
  qed
qed

lemma candidatesLoop_append:
  "candidatesLoop recurse fs dir (pre @ cs) deps =
     (case candidatesLoop recurse fs dir pre deps of
        None \<Rightarrow> None
      | Some (Inl err) \<Rightarrow> Some (Inl err)
      | Some (Inr deps') \<Rightarrow> candidatesLoop recurse fs dir cs deps')"
proof (induction pre arbitrary: deps)
  case Nil
  show ?case by simp
next
  case (Cons c pre)
  show ?case
    by (simp add: Cons.IH split: prod.splits bool.splits option.splits sum.splits)
qed

lemma Split_not_Nil: "Split sep s \<noteq> []"
  by (induction s) (auto split: list.splits)

lemma Split_append_sep: "Split sep (a @ sep # b) = Split sep a @ Split sep b"
proof (induction a)
  case Nil
  show ?case by simp
next
  case (Cons c cs)
  obtain x xs where x: "Split sep cs = x # xs"
    using Split_not_Nil[of sep cs] by (cases "Split sep cs") auto
  show ?case
    by (simp add: Cons.IH x)
qed

lemma Split_no_sep_single: "sep \<notin> set s \<Longrightarrow> Split sep s = [s]"
  by (induction s) auto

lemma Split_joinSep:
  "xs \<noteq> [] \<Longrightarrow> \<forall>e\<in>set xs. CHR ''/'' \<notin> set e \<Longrightarrow> Split (CHR ''/'') (joinSep xs) = xs"
proof (induction xs rule: joinSep.induct)
  case 1
  then show ?case by simp
next
  case (2 x)
  then show ?case by (simp add: Split_no_sep_single)
next
  case (3 x y ys)
  have "Split (CHR ''/'') (x @ CHR ''/'' # joinSep (y # ys)) =
      Split (CHR ''/'') x @ Split (CHR ''/'') (joinSep (y # ys))"
    by (rule Split_append_sep)
  also have "Split (CHR ''/'') x = [x]"
    using 3(3) by (simp add: Split_no_sep_single)
  also have "Split (CHR ''/'') (joinSep (y # ys)) = y # ys"
    using 3 by simp
  finally show ?case by simp
qed

lemma foldl_cleanStep_plain:
  "''..'' \<notin> set xs \<Longrightarrow>
     foldl (cleanStep rooted) out xs = rev (filter (\<lambda>e. e \<noteq> [] \<and> e \<noteq> ''.'') xs) @ out"
proof (induction xs arbitrary: out)
  case Nil
  show ?case by simp
next
  case (Cons x xs)
  from Cons.prems have x: "x \<noteq> ''..''" and xs: "''..'' \<notin> set xs"
    by auto
  have step: "cleanStep rooted out x = (if x \<noteq> [] \<and> x \<noteq> ''.'' then x # out else out)"
    using x by (simp add: cleanStep_def)
  show ?case
    by (simp add: Cons.IH[OF xs] step)
qed

lemma Clean_plain:
  assumes "p \<noteq> []" and "''..'' \<notin> set (Split (CHR ''/'') p)"
  shows "Clean p =
     (if IsAbs p then ''/'' @ joinSep (elements p)
      else if joinSep (elements p) = [] then ''.'' else joinSep (elements p))"
  using assms by (simp add: Clean_def Let_def foldl_cleanStep_plain elements_def)

lemma elements_join: "elements (dir @ ''/'' @ cand) = elements dir @ elements cand"
  by (simp add: elements_def Split_append_sep)

lemma elements_real: "e \<in> set (elements p) \<Longrightarrow> e \<noteq> [] \<and> e \<noteq> ''.'' \<and> CHR ''/'' \<notin> set e"
  by (auto simp: elements_def dest: Split_no_sep)

lemma elements_rooted_joinSep:
  assumes "\<forall>e\<in>set xs. e \<noteq> [] \<and> e \<noteq> ''.'' \<and> CHR ''/'' \<notin> set e"
  shows "elements (''/'' @ joinSep xs) = xs"
proof (cases "xs = []")
  case True
  then show ?thesis by (simp add: elements_def)
next
  case False
  have "Split (CHR ''/'') (joinSep xs) = xs"
    using False assms by (intro Split_joinSep) auto
  then have "elements (''/'' @ joinSep xs) = filter (\<lambda>e. e \<noteq> [] \<and> e \<noteq> ''.'') xs"
    by (simp add: elements_def)
  also have "\<dots> = xs"
    using assms by (simp add: filter_id_conv)
  finally show ?thesis .
qed

lemma Join_absolute_dir:
  assumes "IsAbs dir" and "''..'' \<notin> set (Split (CHR ''/'') dir)"
    and "''..'' \<notin> set (Split (CHR ''/'') cand)"
  shows "Join dir cand = ''/'' @ joinSep (elements dir @ elements cand)"
proof -
  from assms(1) have ne: "dir \<noteq> []" and abs: "IsAbs (dir @ ''/'' @ cand)"
    by (cases dir; simp add: IsAbs_def)+
  have nodd: "''..'' \<notin> set (Split (CHR ''/'') (dir @ ''/'' @ cand))"
    using assms(2,3) by (simp add: Split_append_sep)
  have "Join dir cand = Clean (dir @ ''/'' @ cand)"
    using ne by (simp add: Join_def)
  also have "\<dots> = ''/'' @ joinSep (elements (dir @ ''/'' @ cand))"
    using Clean_plain[OF _ nodd] abs by simp
  finally show ?thesis by (simp only: elements_join)
qed

lemma Join_absolute_dir_differs:
  assumes "IsAbs dir" and "''..'' \<notin> set (Split (CHR ''/'') dir)"
    and "''..'' \<notin> set (Split (CHR ''/'') cand)" and "elements dir \<noteq> []"
  shows "Join dir cand \<noteq> cand"
proof
  assume eq: "Join dir cand = cand"
  have real: "\<forall>e\<in>set (elements dir @ elements cand).
      e \<noteq> [] \<and> e \<noteq> ''.'' \<and> CHR ''/'' \<notin> set e"
    using elements_real by auto
  have "elements (Join dir cand) = elements dir @ elements cand"
    unfolding Join_absolute_dir[OF assms(1-3)] using real by (rule elements_rooted_joinSep)
  with eq have "elements cand = elements dir @ elements cand"
    by simp
  then have "length (elements cand) = length (elements dir) + length (elements cand)"
    by (metis length_append)
  with assms(4) show False by simp
qed

lemma Join_root_dir:
  assumes "IsAbs cand" and "IsAbs dir" and "''..'' \<notin> set (Split (CHR ''/'') dir)"
    and "elements dir = []"
  shows "Join dir cand = Clean cand"
proof -
  from assms(2) have ne: "dir \<noteq> []" and abs: "IsAbs (dir @ ''/'' @ cand)"
    by (cases dir; simp add: IsAbs_def)+
  from assms(1) have cne: "cand \<noteq> []"
    by (cases cand) (simp_all add: IsAbs_def)
  have "foldl (cleanStep True) [] (Split (CHR ''/'') (dir @ ''/'' @ cand)) =
      foldl (cleanStep True) [] (Split (CHR ''/'') cand)"
  proof -
    have "foldl (cleanStep True) [] (Split (CHR ''/'') dir) = []"
      using assms(3,4) by (simp add: foldl_cleanStep_plain elements_def)
    then show ?thesis
      by (simp add: Split_append_sep)
  qed
  then show ?thesis
    using ne cne abs assms(1) by (simp add: Join_def Clean_def Let_def)
qed

lemma Join_empty_dir: "IsAbs cand \<Longrightarrow> Join [] cand = Clean cand"
  by (cases cand) (simp_all add: Join_def IsAbs_def Clean_def)

lemma candidatesLoop_acc:
  "candidatesLoop recurse fs dir cs deps =
     (case candidatesLoop recurse fs dir cs [] of
        None \<Rightarrow> None
      | Some (Inl err) \<Rightarrow> Some (Inl err)
      | Some (Inr ext) \<Rightarrow> Some (Inr (deps @ ext)))"
proof (induction cs arbitrary: deps)
  case Nil
  show ?case by simp
next
  case (Cons c cs)
  note IH = Cons.IH
  obtain loc mode where p: "pathExistsLocally fs c dir = (loc, mode)"
    by (cases "pathExistsLocally fs c dir")
  show ?case
  proof (cases loc)
    case False
    with p show ?thesis by (simp add: IH[of deps])
  next
    case True
    note loc = this
    show ?thesis
    proof (cases "IsDir mode")
      case False
      have "candidatesLoop recurse fs dir (c # cs) deps =
          candidatesLoop recurse fs dir cs (deps @ [Join dir c])"
        using p loc False by simp
      moreover have "candidatesLoop recurse fs dir (c # cs) [] =
          candidatesLoop recurse fs dir cs [Join dir c]"
        using p loc False by simp
      ultimately show ?thesis
        by (simp add: IH[of "deps @ [Join dir c]"] IH[of "[Join dir c]"]
            split: option.splits sum.splits)
    next
      case True
      show ?thesis
      proof (cases "recurse (Join dir c)")
        case None
        with p loc True show ?thesis by simp
      next
        case (Some r)
        show ?thesis
        proof (cases r)
          case (Inl err)
          with Some p loc True show ?thesis by simp
        next
          case (Inr cd)
          have "candidatesLoop recurse fs dir (c # cs) deps =
              candidatesLoop recurse fs dir cs (deps @ cd)"
            using p loc True Some Inr by simp
          moreover have "candidatesLoop recurse fs dir (c # cs) [] =
              candidatesLoop recurse fs dir cs cd"
            using p loc True Some Inr by simp
          ultimately show ?thesis
            by (simp add: IH[of "deps @ cd"] IH[of cd] split: option.splits sum.splits)
        qed
      qed
    qed
  qed
qed

lemma absolute_file_candidate_recorded:
  assumes found: "findKustomizationConfig fs dir = Inr path" and rd: "ReadFile fs path = Inr buf"
    and um: "yaml_Unmarshal fs buf = Inr content"
    and cands: "Bases content @ Resources content = pre @ cand # rest"
    and before: "candidatesLoop (dependenciesForKustomization n fs) fs dir pre [path]
        = Some (Inr deps0)"
    and abs: "IsAbs cand" and st: "Stat fs cand = Some mode" and nodir: "\<not> IsDir mode"
    and after: "candidatesLoop (dependenciesForKustomization n fs) fs dir rest []
        = Some (Inr ext)"
  shows "dependenciesForKustomization (Suc n) fs dir =
      Some (Inr (deps0 @ [Join dir cand] @ ext @ afterCandidates dir content []))"
proof -
  have "candidatesLoop (dependenciesForKustomization n fs) fs dir (cand # rest) deps0 =
      candidatesLoop (dependenciesForKustomization n fs) fs dir rest (deps0 @ [Join dir cand])"
    using absolute_candidate_probe[OF abs st, of dir] nodir by simp
  also have "\<dots> = Some (Inr ((deps0 @ [Join dir cand]) @ ext))"
    using candidatesLoop_acc[of "dependenciesForKustomization n fs" fs dir rest
        "deps0 @ [Join dir cand]"] after by simp
  finally have "candidatesLoop (dependenciesForKustomization n fs) fs dir
      (Bases content @ Resources content) [path] = Some (Inr ((deps0 @ [Join dir cand]) @ ext))"
    by (simp add: cands candidatesLoop_append before)
  then show ?thesis
    using afterCandidates_append[of dir content "(deps0 @ [Join dir cand]) @ ext"]
    by (simp add: dependenciesForKustomization_found[OF found rd um])
qed

lemma absolute_directory_candidate_resolved_rejoined:
  assumes found: "findKustomizationConfig fs dir = Inr path" and rd: "ReadFile fs path = Inr buf"
    and um: "yaml_Unmarshal fs buf = Inr content"
    and cands: "Bases content @ Resources content = pre @ cand # rest"
    and before: "candidatesLoop (dependenciesForKustomization n fs) fs dir pre [path]
        = Some (Inr deps0)"
    and abs: "IsAbs cand" and st: "Stat fs cand = Some mode" and isdir: "IsDir mode"
    and sub: "dependenciesForKustomization n fs (Join dir cand) = Some (Inr cd)"
    and after: "candidatesLoop (dependenciesForKustomization n fs) fs dir rest []
        = Some (Inr ext)"
  shows "dependenciesForKustomization (Suc n) fs dir =
      Some (Inr (deps0 @ cd @ ext @ afterCandidates dir content []))"
proof -
  have "candidatesLoop (dependenciesForKustomization n fs) fs dir (cand # rest) deps0 =
      candidatesLoop (dependenciesForKustomization n fs) fs dir rest (deps0 @ cd)"
    using absolute_candidate_probe[OF abs st, of dir] isdir sub by simp
  also have "\<dots> = Some (Inr ((deps0 @ cd) @ ext))"
    using candidatesLoop_acc[of "dependenciesForKustomization n fs" fs dir rest "deps0 @ cd"]
      after by simp
  finally have "candidatesLoop (dependenciesForKustomization n fs) fs dir
      (Bases content @ Resources content) [path] = Some (Inr ((deps0 @ cd) @ ext))"
    by (simp add: cands candidatesLoop_append before)
  then show ?thesis
    using afterCandidates_append[of dir content "(deps0 @ cd) @ ext"]
    by (simp add: dependenciesForKustomization_found[OF found rd um])
qed

section \<open>Missing configuration files and errors\<close>

text \<open>
  C2. A directory in which none of the accepted kustomization filenames exists resolves
  to the empty list and no error, for every number of nested calls allowed; as a
  candidate of an enclosing overlay such a directory is passed over, and the enclosing
  call returns what the other candidates give. An error is returned only when an
  existing configuration file cannot be read or does not unmarshal, and then that error
  is what the call returns: for the file of the directory itself, and for the file of a
  local directory among its candidates, whose error the enclosing call returns as its
  own.
\<close>

theorem C2_absent_config_is_empty_and_errors_come_from_existing_files:
  "((\<forall>c\<in>set kustomizeFilePaths. Stat fs (Join dir c) = None) \<longrightarrow>
      dependenciesForKustomization (Suc n) fs dir = Some (Inr []))
   \<and> (pathExistsLocally fs cand dir = (True, mode) \<and> IsDir mode
        \<and> (\<forall>c\<in>set kustomizeFilePaths. Stat fs (Join (Join dir cand) c) = None) \<longrightarrow>
      candidatesLoop (dependenciesForKustomization (Suc n) fs) fs dir (cand # rest) deps =
      candidatesLoop (dependenciesForKustomization (Suc n) fs) fs dir rest deps)
   \<and> (dependenciesForKustomization m fs dir = Some (Inl e) \<longrightarrow>
      (\<exists>d path. (\<exists>c\<in>set kustomizeFilePaths. path = Join d c) \<and> Stat fs path \<noteq> None \<and>
         (ReadFile fs path = Inl e \<or>
          (\<exists>buf. ReadFile fs path = Inr buf \<and> yaml_Unmarshal fs buf = Inl e))))
   \<and> (findKustomizationConfig fs dir = Inr path \<and> ReadFile fs path = Inl e \<longrightarrow>
      dependenciesForKustomization (Suc n) fs dir = Some (Inl e))
   \<and> (findKustomizationConfig fs dir = Inr path \<and> ReadFile fs path = Inr buf
        \<and> yaml_Unmarshal fs buf = Inl e \<longrightarrow>
      dependenciesForKustomization (Suc n) fs dir = Some (Inl e))
   \<and> (pathExistsLocally fs cand dir = (True, mode) \<and> IsDir mode
        \<and> recurse (Join dir cand) = Some (Inl e) \<longrightarrow>
      candidatesLoop recurse fs dir (cand # rest) deps = Some (Inl e))
   \<and> (findKustomizationConfig fs dir = Inr path \<and> ReadFile fs path = Inr buf
        \<and> yaml_Unmarshal fs buf = Inr content
        \<and> Bases content @ Resources content = pre @ cand # rest
        \<and> candidatesLoop (dependenciesForKustomization n fs) fs dir pre [path] = Some (Inr deps0)
        \<and> pathExistsLocally fs cand dir = (True, mode) \<and> IsDir mode
        \<and> dependenciesForKustomization n fs (Join dir cand) = Some (Inl e) \<longrightarrow>
      dependenciesForKustomization (Suc n) fs dir = Some (Inl e))
   \<and> (findKustomizationConfig fs dir = Inr path \<and> ReadFile fs path = Inr buf
        \<and> yaml_Unmarshal fs buf = Inr content
        \<and> Bases content @ Resources content = pre @ cand # rest
        \<and> candidatesLoop (dependenciesForKustomization (Suc n) fs) fs dir pre [path]
            = Some (Inr deps0)
        \<and> pathExistsLocally fs cand dir = (True, mode) \<and> IsDir mode
        \<and> (\<forall>c\<in>set kustomizeFilePaths. Stat fs (Join (Join dir cand) c) = None)
        \<and> candidatesLoop (dependenciesForKustomization (Suc n) fs) fs dir rest deps0
            = Some (Inr deps1) \<longrightarrow>
      dependenciesForKustomization (Suc (Suc n)) fs dir =
        Some (Inr (afterCandidates dir content deps1)))"
proof -
  have absent: "dependenciesForKustomization (Suc k) fs d = Some (Inr [])"
    if "\<forall>c\<in>set kustomizeFilePaths. Stat fs (Join d c) = None" for d k
  proof -
    from that obtain err where "findKustomizationConfig fs d = Inl err"
      by (blast dest: findKustomizationConfig_absent)
    then show ?thesis by (simp add: dependenciesForKustomization.simps(2))
  qed
  have only: "\<exists>d path. (\<exists>c\<in>set kustomizeFilePaths. path = Join d c) \<and> Stat fs path \<noteq> None \<and>
         (ReadFile fs path = Inl e \<or>
          (\<exists>buf. ReadFile fs path = Inr buf \<and> yaml_Unmarshal fs buf = Inl e))"
    if "dependenciesForKustomization m fs dir = Some (Inl e)"
  proof -
    from that obtain d path where found: "findKustomizationConfig fs d = Inr path"
      and bad: "ReadFile fs path = Inl e \<or>
        (\<exists>buf. ReadFile fs path = Inr buf \<and> yaml_Unmarshal fs buf = Inl e)"
      by (blast dest: dependenciesForKustomization_error)
    from found have "\<exists>c\<in>set kustomizeFilePaths. path = Join d c \<and> Stat fs path \<noteq> None"
      by (rule findKustomizationConfig_exists)
    with bad show ?thesis by blast
  qed
  have skip: "candidatesLoop (dependenciesForKustomization (Suc n) fs) fs dir (cand # rest) deps =
      candidatesLoop (dependenciesForKustomization (Suc n) fs) fs dir rest deps"
    if "pathExistsLocally fs cand dir = (True, mode)" "IsDir mode"
      "\<forall>c\<in>set kustomizeFilePaths. Stat fs (Join (Join dir cand) c) = None"
    for rest deps
    using that(1,2) absent[OF that(3), of n] by simp
  have rd: "dependenciesForKustomization (Suc n) fs dir = Some (Inl e)"
    if "findKustomizationConfig fs dir = Inr path" "ReadFile fs path = Inl e"
    using that by (simp add: dependenciesForKustomization.simps(2))
  have um: "dependenciesForKustomization (Suc n) fs dir = Some (Inl e)"
    if "findKustomizationConfig fs dir = Inr path" "ReadFile fs path = Inr buf"
      "yaml_Unmarshal fs buf = Inl e"
    using that by (simp add: dependenciesForKustomization.simps(2))
  have nested: "candidatesLoop recurse fs dir (cand # rest) deps = Some (Inl e)"
    if "pathExistsLocally fs cand dir = (True, mode)" "IsDir mode"
      "recurse (Join dir cand) = Some (Inl e)"
    using that by simp
  have deep: "dependenciesForKustomization (Suc n) fs dir = Some (Inl e)"
    if found: "findKustomizationConfig fs dir = Inr path" and read: "ReadFile fs path = Inr buf"
      and dec: "yaml_Unmarshal fs buf = Inr content"
      and cands: "Bases content @ Resources content = pre @ cand # rest"
      and before: "candidatesLoop (dependenciesForKustomization n fs) fs dir pre [path]
        = Some (Inr deps0)"
      and loc: "pathExistsLocally fs cand dir = (True, mode)" and isdir: "IsDir mode"
      and bad: "dependenciesForKustomization n fs (Join dir cand) = Some (Inl e)"
  proof -
    have "candidatesLoop (dependenciesForKustomization n fs) fs dir (cand # rest) deps0
        = Some (Inl e)"
      using loc isdir bad by simp
    then have "candidatesLoop (dependenciesForKustomization n fs) fs dir
        (Bases content @ Resources content) [path] = Some (Inl e)"
      by (simp add: cands candidatesLoop_append before)
    then show ?thesis
      by (simp add: dependenciesForKustomization_found[OF found read dec])
  qed
  have passed: "dependenciesForKustomization (Suc (Suc n)) fs dir =
        Some (Inr (afterCandidates dir content deps1))"
    if found: "findKustomizationConfig fs dir = Inr path" and read: "ReadFile fs path = Inr buf"
      and dec: "yaml_Unmarshal fs buf = Inr content"
      and cands: "Bases content @ Resources content = pre @ cand # rest"
      and before: "candidatesLoop (dependenciesForKustomization (Suc n) fs) fs dir pre [path]
        = Some (Inr deps0)"
      and loc: "pathExistsLocally fs cand dir = (True, mode)" and isdir: "IsDir mode"
      and none: "\<forall>c\<in>set kustomizeFilePaths. Stat fs (Join (Join dir cand) c) = None"
      and after: "candidatesLoop (dependenciesForKustomization (Suc n) fs) fs dir rest deps0
        = Some (Inr deps1)"
  proof -
    have "candidatesLoop (dependenciesForKustomization (Suc n) fs) fs dir (cand # rest) deps0
        = Some (Inr deps1)"
      using skip[OF loc isdir none, of rest deps0] after by simp
    then have "candidatesLoop (dependenciesForKustomization (Suc n) fs) fs dir
        (Bases content @ Resources content) [path] = Some (Inr deps1)"
      by (simp add: cands candidatesLoop_append before)
    then show ?thesis
      by (simp add: dependenciesForKustomization_found[OF found read dec])
  qed
  have first: "((\<forall>c\<in>set kustomizeFilePaths. Stat fs (Join dir c) = None) \<longrightarrow>
      dependenciesForKustomization (Suc n) fs dir = Some (Inr []))
   \<and> (pathExistsLocally fs cand dir = (True, mode) \<and> IsDir mode
        \<and> (\<forall>c\<in>set kustomizeFilePaths. Stat fs (Join (Join dir cand) c) = None) \<longrightarrow>
      candidatesLoop (dependenciesForKustomization (Suc n) fs) fs dir (cand # rest) deps =
      candidatesLoop (dependenciesForKustomization (Suc n) fs) fs dir rest deps)
   \<and> (dependenciesForKustomization m fs dir = Some (Inl e) \<longrightarrow>
      (\<exists>d path. (\<exists>c\<in>set kustomizeFilePaths. path = Join d c) \<and> Stat fs path \<noteq> None \<and>
         (ReadFile fs path = Inl e \<or>
          (\<exists>buf. ReadFile fs path = Inr buf \<and> yaml_Unmarshal fs buf = Inl e))))
   \<and> (findKustomizationConfig fs dir = Inr path \<and> ReadFile fs path = Inl e \<longrightarrow>
      dependenciesForKustomization (Suc n) fs dir = Some (Inl e))
   \<and> (findKustomizationConfig fs dir = Inr path \<and> ReadFile fs path = Inr buf
        \<and> yaml_Unmarshal fs buf = Inl e \<longrightarrow>
      dependenciesForKustomization (Suc n) fs dir = Some (Inl e))
   \<and> (pathExistsLocally fs cand dir = (True, mode) \<and> IsDir mode
        \<and> recurse (Join dir cand) = Some (Inl e) \<longrightarrow>
      candidatesLoop recurse fs dir (cand # rest) deps = Some (Inl e))"
    using absent[of dir n] skip only rd um nested by blast
  have seventh: "findKustomizationConfig fs dir = Inr path \<and> ReadFile fs path = Inr buf
        \<and> yaml_Unmarshal fs buf = Inr content
        \<and> Bases content @ Resources content = pre @ cand # rest
        \<and> candidatesLoop (dependenciesForKustomization n fs) fs dir pre [path] = Some (Inr deps0)
        \<and> pathExistsLocally fs cand dir = (True, mode) \<and> IsDir mode
        \<and> dependenciesForKustomization n fs (Join dir cand) = Some (Inl e) \<longrightarrow>
      dependenciesForKustomization (Suc n) fs dir = Some (Inl e)"
    using deep by (intro impI) (elim conjE)
  have eighth: "findKustomizationConfig fs dir = Inr path \<and> ReadFile fs path = Inr buf
        \<and> yaml_Unmarshal fs buf = Inr content
        \<and> Bases content @ Resources content = pre @ cand # rest
        \<and> candidatesLoop (dependenciesForKustomization (Suc n) fs) fs dir pre [path]
            = Some (Inr deps0)
        \<and> pathExistsLocally fs cand dir = (True, mode) \<and> IsDir mode
        \<and> (\<forall>c\<in>set kustomizeFilePaths. Stat fs (Join (Join dir cand) c) = None)
        \<and> candidatesLoop (dependenciesForKustomization (Suc n) fs) fs dir rest deps0
            = Some (Inr deps1) \<longrightarrow>
      dependenciesForKustomization (Suc (Suc n)) fs dir =
        Some (Inr (afterCandidates dir content deps1))"
    using passed by (intro impI) (elim conjE)
  show ?thesis
    by (intro conjI first[THEN conjunct1] first[THEN conjunct2, THEN conjunct1]
        first[THEN conjunct2, THEN conjunct2, THEN conjunct1]
        first[THEN conjunct2, THEN conjunct2, THEN conjunct2, THEN conjunct1]
        first[THEN conjunct2, THEN conjunct2, THEN conjunct2, THEN conjunct2, THEN conjunct1]
        first[THEN conjunct2, THEN conjunct2, THEN conjunct2, THEN conjunct2, THEN conjunct2]
        seventh eighth)
qed


theorem C2_witness:
  "Stat exampleEnv (Join ''empty'' ''kustomization.yaml'') = None
   \<and> Stat exampleEnv (Join ''empty'' ''kustomization.yml'') = None
   \<and> Stat exampleEnv (Join ''empty'' ''Kustomization'') = None
   \<and> dependenciesForKustomization (Suc 0) exampleEnv ''empty'' = Some (Inr [])
   \<and> pathExistsLocally exampleEnv ''empty'' ''.'' = (True, ModeDir OR 493)
   \<and> IsDir (ModeDir OR 493)
   \<and> Stat exampleEnv (Join (Join ''.'' ''empty'') ''kustomization.yaml'') = None
   \<and> Stat exampleEnv (Join (Join ''.'' ''empty'') ''kustomization.yml'') = None
   \<and> Stat exampleEnv (Join (Join ''.'' ''empty'') ''Kustomization'') = None
   \<and> candidatesLoop (dependenciesForKustomization (Suc 0) exampleEnv) exampleEnv ''.''
        [''empty'', ''deployment.yaml''] [''kustomization.yaml'']
      = Some (Inr [''kustomization.yaml'', ''deployment.yaml''])
   \<and> dependenciesForKustomization 2 exampleEnv ''broken'' = Some (Inl (Error ''read error''))
   \<and> (\<exists>d path. (\<exists>c\<in>set kustomizeFilePaths. path = Join d c) \<and> Stat exampleEnv path \<noteq> None \<and>
         (ReadFile exampleEnv path = Inl (Error ''read error'') \<or>
          (\<exists>buf. ReadFile exampleEnv path = Inr buf
             \<and> yaml_Unmarshal exampleEnv buf = Inl (Error ''read error''))))
   \<and> findKustomizationConfig exampleEnv ''malformed'' = Inr ''malformed/kustomization.yml''
   \<and> ReadFile exampleEnv ''malformed/kustomization.yml'' = Inr ''garbage''
   \<and> yaml_Unmarshal exampleEnv ''garbage'' = Inl (Error ''yaml: unmarshal error'')
   \<and> dependenciesForKustomization (Suc 0) exampleEnv ''malformed''
      = Some (Inl (Error ''yaml: unmarshal error''))
   \<and> findKustomizationConfig exampleEnv ''broken'' = Inr ''broken/kustomization.yaml''
   \<and> ReadFile exampleEnv ''broken/kustomization.yaml'' = Inl (Error ''read error'')
   \<and> dependenciesForKustomization (Suc 0) exampleEnv ''broken'' = Some (Inl (Error ''read error''))
   \<and> pathExistsLocally exampleEnv ''broken'' ''.'' = (True, ModeDir OR 493)
   \<and> dependenciesForKustomization (Suc 0) exampleEnv (Join ''.'' ''broken'')
      = Some (Inl (Error ''read error''))
   \<and> candidatesLoop (dependenciesForKustomization (Suc 0) exampleEnv) exampleEnv ''.''
        [''broken'', ''deployment.yaml''] [''kustomization.yaml'']
      = Some (Inl (Error ''read error''))
   \<and> findKustomizationConfig exampleEnv ''nested'' = Inr ''nested/kustomization.yaml''
   \<and> ReadFile exampleEnv ''nested/kustomization.yaml'' = Inr ''nested''
   \<and> yaml_Unmarshal exampleEnv ''nested'' = Inr nestedContent
   \<and> Bases nestedContent @ Resources nestedContent = [''../base''] @ ''../broken'' # []
   \<and> candidatesLoop (dependenciesForKustomization (Suc 0) exampleEnv) exampleEnv ''nested''
        [''../base''] [''nested/kustomization.yaml'']
      = Some (Inr [''nested/kustomization.yaml'', ''base/kustomization.yaml'',
                   ''base/service.yaml''])
   \<and> pathExistsLocally exampleEnv ''../broken'' ''nested'' = (True, ModeDir OR 493)
   \<and> dependenciesForKustomization (Suc 0) exampleEnv (Join ''nested'' ''../broken'')
      = Some (Inl (Error ''read error''))
   \<and> dependenciesForKustomization (Suc (Suc 0)) exampleEnv ''nested''
      = Some (Inl (Error ''read error''))
   \<and> findKustomizationConfig exampleEnv ''.'' = Inr ''kustomization.yaml''
   \<and> ReadFile exampleEnv ''kustomization.yaml'' = Inr ''overlay''
   \<and> yaml_Unmarshal exampleEnv ''overlay'' = Inr overlayContent
   \<and> Bases overlayContent @ Resources overlayContent =
        [''base'', ''deployment.yaml'', ''/abs/file.yaml'', ''github.com/org/repo'']
        @ ''empty'' # []
   \<and> candidatesLoop (dependenciesForKustomization (Suc 0) exampleEnv) exampleEnv ''.''
        [''base'', ''deployment.yaml'', ''/abs/file.yaml'', ''github.com/org/repo'']
        [''kustomization.yaml'']
      = Some (Inr exampleCandidatesDeps)
   \<and> candidatesLoop (dependenciesForKustomization (Suc 0) exampleEnv) exampleEnv ''.''
        [] exampleCandidatesDeps
      = Some (Inr exampleCandidatesDeps)
   \<and> dependenciesForKustomization (Suc (Suc 0)) exampleEnv ''.''
      = Some (Inr (afterCandidates ''.'' overlayContent exampleCandidatesDeps))"
proof -
  have h1: "\<forall>c\<in>set kustomizeFilePaths. Stat exampleEnv (Join ''empty'' c) = None"
    by code_simp
  have a1: "Stat exampleEnv (Join ''empty'' ''kustomization.yaml'') = None"
    and a2: "Stat exampleEnv (Join ''empty'' ''kustomization.yml'') = None"
    and a3: "Stat exampleEnv (Join ''empty'' ''Kustomization'') = None"
    and b1: "Stat exampleEnv (Join (Join ''.'' ''empty'') ''kustomization.yaml'') = None"
    and b2: "Stat exampleEnv (Join (Join ''.'' ''empty'') ''kustomization.yml'') = None"
    and b3: "Stat exampleEnv (Join (Join ''.'' ''empty'') ''Kustomization'') = None"
    by code_simp+
  have h2: "pathExistsLocally exampleEnv ''empty'' ''.'' = (True, ModeDir OR 493)"
    by code_simp
  have h3: "IsDir (ModeDir OR 493)"
    by code_simp
  have h4: "\<forall>c\<in>set kustomizeFilePaths. Stat exampleEnv (Join (Join ''.'' ''empty'') c) = None"
    by code_simp
  have h5: "dependenciesForKustomization 2 exampleEnv ''broken'' = Some (Inl (Error ''read error''))"
    by code_simp
  have h6: "findKustomizationConfig exampleEnv ''malformed'' = Inr ''malformed/kustomization.yml''"
    by code_simp
  have h7: "ReadFile exampleEnv ''malformed/kustomization.yml'' = Inr ''garbage''"
    by code_simp
  have h8: "yaml_Unmarshal exampleEnv ''garbage'' = Inl (Error ''yaml: unmarshal error'')"
    by code_simp
  have h9: "findKustomizationConfig exampleEnv ''broken'' = Inr ''broken/kustomization.yaml''"
    by code_simp
  have h10: "ReadFile exampleEnv ''broken/kustomization.yaml'' = Inl (Error ''read error'')"
    by code_simp
  have h11: "pathExistsLocally exampleEnv ''broken'' ''.'' = (True, ModeDir OR 493)"
    by code_simp
  have h12: "dependenciesForKustomization (Suc 0) exampleEnv (Join ''.'' ''broken'')
      = Some (Inl (Error ''read error''))"
    by code_simp
  have rest: "candidatesLoop (dependenciesForKustomization (Suc 0) exampleEnv) exampleEnv ''.''
      [''deployment.yaml''] [''kustomization.yaml'']
      = Some (Inr [''kustomization.yaml'', ''deployment.yaml''])"
    by code_simp
  note T = C2_absent_config_is_empty_and_errors_come_from_existing_files
  note T1 = T[THEN conjunct1, THEN mp]
  note T2 = T[THEN conjunct2, THEN conjunct1, THEN mp]
  note T3 = T[THEN conjunct2, THEN conjunct2, THEN conjunct1, THEN mp]
  note T4 = T[THEN conjunct2, THEN conjunct2, THEN conjunct2, THEN conjunct1, THEN mp]
  note T5 = T[THEN conjunct2, THEN conjunct2, THEN conjunct2, THEN conjunct2, THEN conjunct1,
      THEN mp]
  note T6 = T[where recurse = "dependenciesForKustomization (Suc 0) exampleEnv",
      THEN conjunct2, THEN conjunct2, THEN conjunct2, THEN conjunct2, THEN conjunct2,
      THEN conjunct1, THEN mp]
  have c1: "dependenciesForKustomization (Suc 0) exampleEnv ''empty'' = Some (Inr [])"
    by (rule T1[OF h1])
  have "candidatesLoop (dependenciesForKustomization (Suc 0) exampleEnv) exampleEnv ''.''
        [''empty'', ''deployment.yaml''] [''kustomization.yaml'']
      = candidatesLoop (dependenciesForKustomization (Suc 0) exampleEnv) exampleEnv ''.''
        [''deployment.yaml''] [''kustomization.yaml'']"
    by (rule T2[OF conjI[OF h2 conjI[OF h3 h4]]])
  then have c2: "candidatesLoop (dependenciesForKustomization (Suc 0) exampleEnv) exampleEnv ''.''
        [''empty'', ''deployment.yaml''] [''kustomization.yaml'']
      = Some (Inr [''kustomization.yaml'', ''deployment.yaml''])"
    using rest by (rule trans)
  have c3: "\<exists>d path. (\<exists>c\<in>set kustomizeFilePaths. path = Join d c) \<and> Stat exampleEnv path \<noteq> None \<and>
         (ReadFile exampleEnv path = Inl (Error ''read error'') \<or>
          (\<exists>buf. ReadFile exampleEnv path = Inr buf
             \<and> yaml_Unmarshal exampleEnv buf = Inl (Error ''read error'')))"
    by (rule T3[OF h5])
  have c4: "dependenciesForKustomization (Suc 0) exampleEnv ''malformed''
      = Some (Inl (Error ''yaml: unmarshal error''))"
    by (rule T5[OF conjI[OF h6 conjI[OF h7 h8]]])
  have c5: "dependenciesForKustomization (Suc 0) exampleEnv ''broken''
      = Some (Inl (Error ''read error''))"
    by (rule T4[OF conjI[OF h9 h10]])
  have c6: "candidatesLoop (dependenciesForKustomization (Suc 0) exampleEnv) exampleEnv ''.''
        [''broken'', ''deployment.yaml''] [''kustomization.yaml'']
      = Some (Inl (Error ''read error''))"
    by (rule T6[OF conjI[OF h11 conjI[OF h3 h12]]])
  have n1: "findKustomizationConfig exampleEnv ''nested'' = Inr ''nested/kustomization.yaml''"
    by code_simp
  have n2: "ReadFile exampleEnv ''nested/kustomization.yaml'' = Inr ''nested''"
    by code_simp
  have n3: "yaml_Unmarshal exampleEnv ''nested'' = Inr nestedContent"
    by code_simp
  have n4: "Bases nestedContent @ Resources nestedContent = [''../base''] @ ''../broken'' # []"
    by code_simp
  have n5: "candidatesLoop (dependenciesForKustomization (Suc 0) exampleEnv) exampleEnv
        ''nested'' [''../base''] [''nested/kustomization.yaml'']
      = Some (Inr [''nested/kustomization.yaml'', ''base/kustomization.yaml'',
                   ''base/service.yaml''])"
    by code_simp
  have n6: "pathExistsLocally exampleEnv ''../broken'' ''nested'' = (True, ModeDir OR 493)"
    by code_simp
  have n7: "dependenciesForKustomization (Suc 0) exampleEnv (Join ''nested'' ''../broken'')
      = Some (Inl (Error ''read error''))"
    by code_simp
  have c7: "dependenciesForKustomization (Suc (Suc 0)) exampleEnv ''nested''
      = Some (Inl (Error ''read error''))"
    by (rule T[THEN conjunct2, THEN conjunct2, THEN conjunct2, THEN conjunct2, THEN conjunct2,
          THEN conjunct2, THEN conjunct1, THEN mp,
          OF conjI[OF n1 conjI[OF n2 conjI[OF n3 conjI[OF n4 conjI[OF n5 conjI[OF n6
             conjI[OF h3 n7]]]]]]]])
  have o1: "findKustomizationConfig exampleEnv ''.'' = Inr ''kustomization.yaml''"
    by code_simp
  have o2: "ReadFile exampleEnv ''kustomization.yaml'' = Inr ''overlay''"
    by code_simp
  have o3: "yaml_Unmarshal exampleEnv ''overlay'' = Inr overlayContent"
    by code_simp
  have o4: "Bases overlayContent @ Resources overlayContent =
        [''base'', ''deployment.yaml'', ''/abs/file.yaml'', ''github.com/org/repo'']
        @ ''empty'' # []"
    by code_simp
  have o5: "candidatesLoop (dependenciesForKustomization (Suc 0) exampleEnv) exampleEnv ''.''
        [''base'', ''deployment.yaml'', ''/abs/file.yaml'', ''github.com/org/repo'']
        [''kustomization.yaml'']
      = Some (Inr exampleCandidatesDeps)"
    by code_simp
  have o6: "candidatesLoop (dependenciesForKustomization (Suc 0) exampleEnv) exampleEnv ''.''
        [] exampleCandidatesDeps
      = Some (Inr exampleCandidatesDeps)"
    by simp
  have c8: "dependenciesForKustomization (Suc (Suc 0)) exampleEnv ''.''
      = Some (Inr (afterCandidates ''.'' overlayContent exampleCandidatesDeps))"
    by (rule T[THEN conjunct2, THEN conjunct2, THEN conjunct2, THEN conjunct2, THEN conjunct2,
          THEN conjunct2, THEN conjunct2, THEN mp,
          OF conjI[OF o1 conjI[OF o2 conjI[OF o3 conjI[OF o4 conjI[OF o5 conjI[OF h2
             conjI[OF h3 conjI[OF h4 o6]]]]]]]]])
  show ?thesis
    by (intro conjI a1 a2 a3 b1 b2 b3 h2 h3 h5 h6 h7 h8 h9 h10 h11 h12 c1 c2 c3 c4 c5 c6
        n1 n2 n3 n4 n5 n6 n7 c7 o1 o2 o3 o4 o5 o6 c8)
qed


section \<open>The candidates: bases and resources\<close>

text \<open>
  C3. The resolver does not do what the claim says for a candidate that is an absolute
  path of a local directory. In the example the overlay in \<^verbatim>\<open>absolute\<close> names the
  directory \<^verbatim>\<open>/abs/dir\<close>. The directory exists and resolves to its configuration file and
  its resource, which is what the candidate contributes in the claim's words. The
  resolver finds the directory at \<^verbatim>\<open>/abs/dir\<close> and then resolves \<^verbatim>\<open>absolute/abs/dir\<close>,
  which does not exist, so that neither file of \<^verbatim>\<open>/abs/dir\<close> is among the dependencies
  of the overlay, with two nested calls and with more.
\<close>

theorem C3_absolute_directory_is_not_resolved:
  "docBases absoluteDocument @ docResources absoluteDocument = [''/abs/dir'', ''/abs/file.yaml'']
   \<and> pathExistsLocally exampleEnv ''/abs/dir'' ''absolute'' = (True, ModeDir OR 493)
   \<and> IsDir (ModeDir OR 493)
   \<and> dependenciesForKustomization 1 exampleEnv ''/abs/dir'' =
       Some (Inr [''/abs/dir/kustomization.yaml'', ''/abs/dir/service.yaml''])
   \<and> candidateContribution (dependenciesForKustomization 1 exampleEnv) exampleEnv
        ''absolute'' ''/abs/dir'' =
       Some (Inr [''/abs/dir/kustomization.yaml'', ''/abs/dir/service.yaml''])
   \<and> Join ''absolute'' ''/abs/dir'' = ''absolute/abs/dir''
   \<and> Stat exampleEnv ''absolute/abs/dir'' = None
   \<and> dependenciesForKustomization 1 exampleEnv ''absolute/abs/dir'' = Some (Inr [])
   \<and> dependenciesForKustomization 2 exampleEnv ''absolute'' =
       Some (Inr [''absolute/kustomization.yaml'', ''absolute/abs/file.yaml''])
   \<and> dependenciesForKustomization 5 exampleEnv ''absolute'' =
       Some (Inr [''absolute/kustomization.yaml'', ''absolute/abs/file.yaml''])"
  by code_simp

section \<open>Absolute candidates\<close>

text \<open>
  C10, as the claim states it, fails: when the overlay directory is empty or is the root
  directory, \<^verbatim>\<open>filepath.Join(dir, candidate)\<close> of an absolute candidate is the absolute
  path itself, and that is the path recorded.
\<close>

theorem C10_counterexample:
  "IsAbs ''/abs/file.yaml''
   \<and> Stat exampleEnv ''/abs/file.yaml'' = Some 420
   \<and> Join [] ''/abs/file.yaml'' = ''/abs/file.yaml''
   \<and> Join ''/'' ''/abs/file.yaml'' = ''/abs/file.yaml''
   \<and> candidatesLoop (dependenciesForKustomization 1 exampleEnv) exampleEnv []
        [''/abs/file.yaml''] [] = Some (Inr [''/abs/file.yaml''])
   \<and> candidatesLoop (dependenciesForKustomization 1 exampleEnv) exampleEnv ''/''
        [''/abs/file.yaml''] [] = Some (Inr [''/abs/file.yaml''])
   \<and> dependenciesForKustomization 2 exampleEnv ''/'' =
       Some (Inr [''/kustomization.yaml'', ''/abs/dir/kustomization.yaml'',
                  ''/abs/dir/service.yaml'', ''/abs/file.yaml''])"
  by code_simp

text \<open>
  C10, amended. A candidate of the combined list of bases and resources that is an
  absolute path is probed as it is, whatever the overlay directory; when it exists, the
  path recorded (for a file) or resolved next (for a directory) is
  \<^verbatim>\<open>filepath.Join(dir, candidate)\<close>, in the candidates loop and in the list that
  \<^verbatim>\<open>dependenciesForKustomization\<close> returns. That path is not the candidate itself when
  the overlay directory is relative and not empty (it is then a relative path), nor when
  the overlay directory is absolute with at least one element and neither path has a
  \<^verbatim>\<open>..\<close> element (it is then the elements of the directory followed by those of the
  candidate); when the overlay directory is empty or is the root directory it is the
  cleaned candidate. The entries of crds and the files of generators go through
  \<^verbatim>\<open>AbsolutePaths\<close>, which keeps an absolute path as it is.
\<close>

theorem C10_absolute_candidate_is_rejoined:
  "(IsAbs cand \<and> Stat fs cand = Some mode \<longrightarrow>
      pathExistsLocally fs cand dir = (True, mode)
      \<and> candidatesLoop recurse fs dir (cand # rest) deps =
          (if IsDir mode
           then (case recurse (Join dir cand) of
                   None \<Rightarrow> None
                 | Some (Inl err) \<Rightarrow> Some (Inl err)
                 | Some (Inr candidateDeps) \<Rightarrow>
                     candidatesLoop recurse fs dir rest (deps @ candidateDeps))
           else candidatesLoop recurse fs dir rest (deps @ [Join dir cand])))
   \<and> (IsAbs cand \<and> dir \<noteq> [] \<and> \<not> IsAbs dir \<longrightarrow>
        \<not> IsAbs (Join dir cand) \<and> Join dir cand \<noteq> cand)
   \<and> (IsAbs cand \<longrightarrow> AbsolutePaths dir [cand] = [cand])
   \<and> (IsAbs cand \<and> cand \<in> set (CRDs content) \<longrightarrow>
        cand \<in> set (afterCandidates dir content deps))
   \<and> (IsAbs cand \<and> cm \<in> set (ConfigMapGenerator content)
        \<and> cand \<in> set (configMapGenerator.Files cm) \<longrightarrow>
        cand \<in> set (afterCandidates dir content deps))
   \<and> (IsAbs cand \<and> sg \<in> set (SecretGenerator content)
        \<and> cand \<in> set (secretGenerator.Files sg) \<longrightarrow>
        cand \<in> set (afterCandidates dir content deps))
   \<and> (IsAbs cand \<and> IsAbs dir \<and> ''..'' \<notin> set (Split (CHR ''/'') dir)
        \<and> ''..'' \<notin> set (Split (CHR ''/'') cand) \<and> elements dir \<noteq> [] \<longrightarrow>
        Join dir cand = ''/'' @ joinSep (elements dir @ elements cand)
        \<and> Join dir cand \<noteq> cand)
   \<and> (IsAbs cand \<longrightarrow> Join [] cand = Clean cand)
   \<and> (IsAbs cand \<and> IsAbs dir \<and> ''..'' \<notin> set (Split (CHR ''/'') dir)
        \<and> elements dir = [] \<longrightarrow>
        Join dir cand = Clean cand)
   \<and> (findKustomizationConfig fs dir = Inr path \<and> ReadFile fs path = Inr buf
        \<and> yaml_Unmarshal fs buf = Inr content
        \<and> Bases content @ Resources content = pre @ cand # rest
        \<and> candidatesLoop (dependenciesForKustomization n fs) fs dir pre [path] = Some (Inr deps0)
        \<and> IsAbs cand \<and> Stat fs cand = Some mode \<and> \<not> IsDir mode
        \<and> candidatesLoop (dependenciesForKustomization n fs) fs dir rest [] = Some (Inr ext)
        \<longrightarrow>
        dependenciesForKustomization (Suc n) fs dir =
          Some (Inr (deps0 @ [Join dir cand] @ ext @ afterCandidates dir content [])))
   \<and> (findKustomizationConfig fs dir = Inr path \<and> ReadFile fs path = Inr buf
        \<and> yaml_Unmarshal fs buf = Inr content
        \<and> Bases content @ Resources content = pre @ cand # rest
        \<and> candidatesLoop (dependenciesForKustomization n fs) fs dir pre [path] = Some (Inr deps0)
        \<and> IsAbs cand \<and> Stat fs cand = Some mode \<and> IsDir mode
        \<and> dependenciesForKustomization n fs (Join dir cand) = Some (Inr cd)
        \<and> candidatesLoop (dependenciesForKustomization n fs) fs dir rest [] = Some (Inr ext)
        \<longrightarrow>
        dependenciesForKustomization (Suc n) fs dir =
          Some (Inr (deps0 @ cd @ ext @ afterCandidates dir content [])))"
proof (intro conjI impI; (elim conjE)?)
  show "pathExistsLocally fs cand dir = (True, mode)"
    if "IsAbs cand" "Stat fs cand = Some mode"
    using that by (rule absolute_candidate_probe)
  show "candidatesLoop recurse fs dir (cand # rest) deps =
          (if IsDir mode
           then (case recurse (Join dir cand) of
                   None \<Rightarrow> None
                 | Some (Inl err) \<Rightarrow> Some (Inl err)
                 | Some (Inr candidateDeps) \<Rightarrow>
                     candidatesLoop recurse fs dir rest (deps @ candidateDeps))
           else candidatesLoop recurse fs dir rest (deps @ [Join dir cand]))"
    if "IsAbs cand" "Stat fs cand = Some mode"
    by (rule local_candidate_step[OF absolute_candidate_probe[OF that]])
  show "\<not> IsAbs (Join dir cand)" if "IsAbs cand" "dir \<noteq> []" "\<not> IsAbs dir"
    using absolute_candidate_rejoined[OF that] by (rule conjunct1)
  show "Join dir cand \<noteq> cand" if "IsAbs cand" "dir \<noteq> []" "\<not> IsAbs dir"
    using absolute_candidate_rejoined[OF that] by (rule conjunct2)
  show "AbsolutePaths dir [cand] = [cand]" if "IsAbs cand"
    using that by (rule AbsolutePaths_absolute)
  show "cand \<in> set (afterCandidates dir content deps)"
    if "IsAbs cand" "cand \<in> set (CRDs content)"
    using that by (rule absolute_crd_kept)
  show "cand \<in> set (afterCandidates dir content deps)"
    if "IsAbs cand" "cm \<in> set (ConfigMapGenerator content)"
      "cand \<in> set (configMapGenerator.Files cm)"
    using that by (rule absolute_configMap_file_kept)
  show "cand \<in> set (afterCandidates dir content deps)"
    if "IsAbs cand" "sg \<in> set (SecretGenerator content)"
      "cand \<in> set (secretGenerator.Files sg)"
    using that by (rule absolute_secret_file_kept)
  show "Join dir cand = ''/'' @ joinSep (elements dir @ elements cand)"
    if "IsAbs cand" "IsAbs dir" "''..'' \<notin> set (Split (CHR ''/'') dir)"
      "''..'' \<notin> set (Split (CHR ''/'') cand)" "elements dir \<noteq> []"
    using that(2,3,4) by (rule Join_absolute_dir)
  show "Join dir cand \<noteq> cand"
    if "IsAbs cand" "IsAbs dir" "''..'' \<notin> set (Split (CHR ''/'') dir)"
      "''..'' \<notin> set (Split (CHR ''/'') cand)" "elements dir \<noteq> []"
    using that(2,3,4,5) by (rule Join_absolute_dir_differs)
  show "Join [] cand = Clean cand" if "IsAbs cand"
    using that by (rule Join_empty_dir)
  show "Join dir cand = Clean cand"
    if "IsAbs cand" "IsAbs dir" "''..'' \<notin> set (Split (CHR ''/'') dir)" "elements dir = []"
    using that by (rule Join_root_dir)
  show "dependenciesForKustomization (Suc n) fs dir =
          Some (Inr (deps0 @ [Join dir cand] @ ext @ afterCandidates dir content []))"
    if "findKustomizationConfig fs dir = Inr path" "ReadFile fs path = Inr buf"
      "yaml_Unmarshal fs buf = Inr content"
      "Bases content @ Resources content = pre @ cand # rest"
      "candidatesLoop (dependenciesForKustomization n fs) fs dir pre [path] = Some (Inr deps0)"
      "IsAbs cand" "Stat fs cand = Some mode" "\<not> IsDir mode"
      "candidatesLoop (dependenciesForKustomization n fs) fs dir rest [] = Some (Inr ext)"
    using that by (rule absolute_file_candidate_recorded)
  show "dependenciesForKustomization (Suc n) fs dir =
          Some (Inr (deps0 @ cd @ ext @ afterCandidates dir content []))"
    if "findKustomizationConfig fs dir = Inr path" "ReadFile fs path = Inr buf"
      "yaml_Unmarshal fs buf = Inr content"
      "Bases content @ Resources content = pre @ cand # rest"
      "candidatesLoop (dependenciesForKustomization n fs) fs dir pre [path] = Some (Inr deps0)"
      "IsAbs cand" "Stat fs cand = Some mode" "IsDir mode"
      "dependenciesForKustomization n fs (Join dir cand) = Some (Inr cd)"
      "candidatesLoop (dependenciesForKustomization n fs) fs dir rest [] = Some (Inr ext)"
    using that by (rule absolute_directory_candidate_resolved_rejoined)
qed

theorem C10_witness:
  "IsAbs ''/abs/file.yaml'' \<and> Stat exampleEnv ''/abs/file.yaml'' = Some 420
   \<and> pathExistsLocally exampleEnv ''/abs/file.yaml'' ''.'' = (True, 420)
   \<and> candidatesLoop (dependenciesForKustomization 1 exampleEnv) exampleEnv ''.''
        [''/abs/file.yaml''] [''kustomization.yaml'']
      = Some (Inr [''kustomization.yaml'', ''abs/file.yaml''])
   \<and> ''.'' \<noteq> [] \<and> \<not> IsAbs ''.''
   \<and> \<not> IsAbs (Join ''.'' ''/abs/file.yaml'')
   \<and> Join ''.'' ''/abs/file.yaml'' \<noteq> ''/abs/file.yaml''
   \<and> Join ''.'' ''/abs/file.yaml'' = ''abs/file.yaml''
   \<and> AbsolutePaths ''.'' [''/abs/file.yaml''] = [''/abs/file.yaml'']
   \<and> IsAbs ''/abs/crd.yaml'' \<and> ''/abs/crd.yaml'' \<in> set (CRDs overlayContent)
   \<and> ''/abs/crd.yaml'' \<in> set (afterCandidates ''.'' overlayContent [])
   \<and> IsAbs ''/etc/app.conf''
   \<and> exampleConfigMapGenerator \<in> set (ConfigMapGenerator overlayContent)
   \<and> ''/etc/app.conf'' \<in> set (configMapGenerator.Files exampleConfigMapGenerator)
   \<and> ''/etc/app.conf'' \<in> set (afterCandidates ''.'' overlayContent [])
   \<and> IsAbs ''/run/secrets/token''
   \<and> exampleSecretGenerator \<in> set (SecretGenerator overlayContent)
   \<and> ''/run/secrets/token'' \<in> set (secretGenerator.Files exampleSecretGenerator)
   \<and> ''/run/secrets/token'' \<in> set (afterCandidates ''.'' overlayContent [])
   \<and> IsAbs ''/srv/app'' \<and> ''..'' \<notin> set (Split (CHR ''/'') ''/srv/app'')
   \<and> ''..'' \<notin> set (Split (CHR ''/'') ''/abs/file.yaml'') \<and> elements ''/srv/app'' \<noteq> []
   \<and> Join ''/srv/app'' ''/abs/file.yaml'' = ''/srv/app/abs/file.yaml''
   \<and> Join ''/srv/app'' ''/abs/file.yaml'' \<noteq> ''/abs/file.yaml''
   \<and> Join [] ''/abs/file.yaml'' = ''/abs/file.yaml''
   \<and> IsAbs ''/'' \<and> ''..'' \<notin> set (Split (CHR ''/'') ''/'') \<and> elements ''/'' = []
   \<and> Join ''/'' ''/abs/file.yaml'' = ''/abs/file.yaml''
   \<and> findKustomizationConfig exampleEnv ''absolute'' = Inr ''absolute/kustomization.yaml''
   \<and> ReadFile exampleEnv ''absolute/kustomization.yaml'' = Inr ''absolute''
   \<and> yaml_Unmarshal exampleEnv ''absolute'' = Inr absoluteContent
   \<and> Bases absoluteContent @ Resources absoluteContent = [''/abs/dir''] @ ''/abs/file.yaml'' # []
   \<and> candidatesLoop (dependenciesForKustomization 1 exampleEnv) exampleEnv ''absolute''
        [''/abs/dir''] [''absolute/kustomization.yaml'']
       = Some (Inr [''absolute/kustomization.yaml''])
   \<and> candidatesLoop (dependenciesForKustomization 1 exampleEnv) exampleEnv ''absolute'' [] []
       = Some (Inr [])
   \<and> dependenciesForKustomization (Suc 1) exampleEnv ''absolute'' =
       Some (Inr [''absolute/kustomization.yaml'', ''absolute/abs/file.yaml''])
   \<and> findKustomizationConfig exampleEnv ''/'' = Inr ''/kustomization.yaml''
   \<and> ReadFile exampleEnv ''/kustomization.yaml'' = Inr ''absolute''
   \<and> Bases absoluteContent @ Resources absoluteContent = [] @ ''/abs/dir'' # [''/abs/file.yaml'']
   \<and> candidatesLoop (dependenciesForKustomization 1 exampleEnv) exampleEnv ''/'' []
        [''/kustomization.yaml''] = Some (Inr [''/kustomization.yaml''])
   \<and> Stat exampleEnv ''/abs/dir'' = Some (ModeDir OR 493) \<and> IsDir (ModeDir OR 493)
   \<and> dependenciesForKustomization 1 exampleEnv (Join ''/'' ''/abs/dir'') =
       Some (Inr [''/abs/dir/kustomization.yaml'', ''/abs/dir/service.yaml''])
   \<and> candidatesLoop (dependenciesForKustomization 1 exampleEnv) exampleEnv ''/''
        [''/abs/file.yaml''] [] = Some (Inr [''/abs/file.yaml''])
   \<and> dependenciesForKustomization (Suc 1) exampleEnv ''/'' =
       Some (Inr [''/kustomization.yaml'', ''/abs/dir/kustomization.yaml'',
                  ''/abs/dir/service.yaml'', ''/abs/file.yaml''])
   \<and> IsAbs ''/abs/dir''
   \<and> dependenciesForKustomization 1 exampleEnv (Join ''absolute'' ''/abs/dir'') = Some (Inr [])
   \<and> candidatesLoop (dependenciesForKustomization 1 exampleEnv) exampleEnv ''absolute''
        [''/abs/file.yaml''] [] = Some (Inr [''absolute/abs/file.yaml''])"
proof -
  note T = C10_absolute_candidate_is_rejoined
  have a1: "IsAbs ''/abs/file.yaml''" by code_simp
  have a2: "Stat exampleEnv ''/abs/file.yaml'' = Some 420" by code_simp
  have a3: "\<not> IsDir 420" by code_simp
  have a4: "(''.''::string) \<noteq> []" by simp
  have a5: "\<not> IsAbs ''.''" by code_simp
  have a6: "Join ''.'' ''/abs/file.yaml'' = ''abs/file.yaml''" by code_simp
  have b1: "IsAbs ''/abs/crd.yaml''" by code_simp
  have b2: "''/abs/crd.yaml'' \<in> set (CRDs overlayContent)" by code_simp
  have c1: "IsAbs ''/etc/app.conf''" by code_simp
  have c2: "exampleConfigMapGenerator \<in> set (ConfigMapGenerator overlayContent)"
    by (simp add: overlayContent_def)
  have c3: "''/etc/app.conf'' \<in> set (configMapGenerator.Files exampleConfigMapGenerator)"
    by code_simp
  have d1: "IsAbs ''/run/secrets/token''" by code_simp
  have d2: "exampleSecretGenerator \<in> set (SecretGenerator overlayContent)"
    by (simp add: overlayContent_def)
  have d3: "''/run/secrets/token'' \<in> set (secretGenerator.Files exampleSecretGenerator)"
    by code_simp
  note P = T[where cand = "''/abs/file.yaml''" and fs = exampleEnv and mode = 420
      and dir = "''.''" and recurse = "dependenciesForKustomization 1 exampleEnv"
      and rest = "[]" and deps = "[''kustomization.yaml'']",
      THEN conjunct1, THEN mp, OF conjI[OF a1 a2]]
  have r1: "pathExistsLocally exampleEnv ''/abs/file.yaml'' ''.'' = (True, 420)"
    by (rule P[THEN conjunct1])
  have r2: "candidatesLoop (dependenciesForKustomization 1 exampleEnv) exampleEnv ''.''
        [''/abs/file.yaml''] [''kustomization.yaml'']
      = Some (Inr [''kustomization.yaml'', ''abs/file.yaml''])"
    using P[THEN conjunct2] a3 by (simp add: a6)
  note Q = T[where cand = "''/abs/file.yaml''" and dir = "''.''",
      THEN conjunct2, THEN conjunct1, THEN mp, OF conjI[OF a1 conjI[OF a4 a5]]]
  have r3: "\<not> IsAbs (Join ''.'' ''/abs/file.yaml'')" by (rule Q[THEN conjunct1])
  have r4: "Join ''.'' ''/abs/file.yaml'' \<noteq> ''/abs/file.yaml''" by (rule Q[THEN conjunct2])
  have r5: "AbsolutePaths ''.'' [''/abs/file.yaml''] = [''/abs/file.yaml'']"
    by (rule T[THEN conjunct2, THEN conjunct2, THEN conjunct1, THEN mp, OF a1])
  have r6: "''/abs/crd.yaml'' \<in> set (afterCandidates ''.'' overlayContent [])"
    by (rule T[THEN conjunct2, THEN conjunct2, THEN conjunct2, THEN conjunct1, THEN mp,
          OF conjI[OF b1 b2]])
  have r7: "''/etc/app.conf'' \<in> set (afterCandidates ''.'' overlayContent [])"
    by (rule T[THEN conjunct2, THEN conjunct2, THEN conjunct2, THEN conjunct2, THEN conjunct1,
          THEN mp, OF conjI[OF c1 conjI[OF c2 c3]]])
  have r8: "''/run/secrets/token'' \<in> set (afterCandidates ''.'' overlayContent [])"
    by (rule T[THEN conjunct2, THEN conjunct2, THEN conjunct2, THEN conjunct2, THEN conjunct2,
          THEN conjunct1, THEN mp, OF conjI[OF d1 conjI[OF d2 d3]]])
  note T7 = T[THEN conjunct2, THEN conjunct2, THEN conjunct2, THEN conjunct2, THEN conjunct2,
      THEN conjunct2, THEN conjunct1, THEN mp]
  note T8 = T[THEN conjunct2, THEN conjunct2, THEN conjunct2, THEN conjunct2, THEN conjunct2,
      THEN conjunct2, THEN conjunct2, THEN conjunct1, THEN mp]
  note T9 = T[THEN conjunct2, THEN conjunct2, THEN conjunct2, THEN conjunct2, THEN conjunct2,
      THEN conjunct2, THEN conjunct2, THEN conjunct2, THEN conjunct1, THEN mp]
  note T10 = T[THEN conjunct2, THEN conjunct2, THEN conjunct2, THEN conjunct2, THEN conjunct2,
      THEN conjunct2, THEN conjunct2, THEN conjunct2, THEN conjunct2, THEN conjunct1, THEN mp]
  note T11 = T[THEN conjunct2, THEN conjunct2, THEN conjunct2, THEN conjunct2, THEN conjunct2,
      THEN conjunct2, THEN conjunct2, THEN conjunct2, THEN conjunct2, THEN conjunct2, THEN mp]
  have e1: "IsAbs ''/srv/app''" by code_simp
  have e2: "''..'' \<notin> set (Split (CHR ''/'') ''/srv/app'')" by code_simp
  have e3: "''..'' \<notin> set (Split (CHR ''/'') ''/abs/file.yaml'')" by code_simp
  have e4: "elements ''/srv/app'' \<noteq> []" by code_simp
  have e5: "''/'' @ joinSep (elements ''/srv/app'' @ elements ''/abs/file.yaml'')
      = ''/srv/app/abs/file.yaml''" by code_simp
  note E = T7[OF conjI[OF a1 conjI[OF e1 conjI[OF e2 conjI[OF e3 e4]]]]]
  have s1: "Join ''/srv/app'' ''/abs/file.yaml'' = ''/srv/app/abs/file.yaml''"
    using E[THEN conjunct1] by (simp only: e5)
  have s2: "Join ''/srv/app'' ''/abs/file.yaml'' \<noteq> ''/abs/file.yaml''"
    by (rule E[THEN conjunct2])
  have cl: "Clean ''/abs/file.yaml'' = ''/abs/file.yaml''" by code_simp
  have s3: "Join [] ''/abs/file.yaml'' = ''/abs/file.yaml''"
    using T8[OF a1] by (simp only: cl)
  have f1: "IsAbs ''/''" by code_simp
  have f2: "''..'' \<notin> set (Split (CHR ''/'') ''/'')" by code_simp
  have f3: "elements ''/'' = []" by code_simp
  have s4: "Join ''/'' ''/abs/file.yaml'' = ''/abs/file.yaml''"
    using T9[OF conjI[OF a1 conjI[OF f1 conjI[OF f2 f3]]]] by (simp only: cl)
  have g1: "findKustomizationConfig exampleEnv ''absolute'' = Inr ''absolute/kustomization.yaml''"
    by code_simp
  have g2: "ReadFile exampleEnv ''absolute/kustomization.yaml'' = Inr ''absolute''"
    by code_simp
  have g3: "yaml_Unmarshal exampleEnv ''absolute'' = Inr absoluteContent"
    by code_simp
  have g4: "Bases absoluteContent @ Resources absoluteContent =
      [''/abs/dir''] @ ''/abs/file.yaml'' # []"
    by code_simp
  have g5: "candidatesLoop (dependenciesForKustomization 1 exampleEnv) exampleEnv ''absolute''
        [''/abs/dir''] [''absolute/kustomization.yaml'']
       = Some (Inr [''absolute/kustomization.yaml''])"
    by code_simp
  have g6: "candidatesLoop (dependenciesForKustomization 1 exampleEnv) exampleEnv ''absolute''
      [] [] = Some (Inr [])"
    by simp
  have g7: "[''absolute/kustomization.yaml''] @ [Join ''absolute'' ''/abs/file.yaml''] @ []
      @ afterCandidates ''absolute'' absoluteContent [] =
      [''absolute/kustomization.yaml'', ''absolute/abs/file.yaml'']"
    by code_simp
  have s5: "dependenciesForKustomization (Suc 1) exampleEnv ''absolute'' =
       Some (Inr [''absolute/kustomization.yaml'', ''absolute/abs/file.yaml''])"
    using T10[OF conjI[OF g1 conjI[OF g2 conjI[OF g3 conjI[OF g4 conjI[OF g5 conjI[OF a1
        conjI[OF a2 conjI[OF a3 g6]]]]]]]]]
    by (simp only: g7)
  have k1: "findKustomizationConfig exampleEnv ''/'' = Inr ''/kustomization.yaml''"
    by code_simp
  have k2: "ReadFile exampleEnv ''/kustomization.yaml'' = Inr ''absolute''"
    by code_simp
  have k4: "Bases absoluteContent @ Resources absoluteContent =
      [] @ ''/abs/dir'' # [''/abs/file.yaml'']"
    by code_simp
  have k5: "candidatesLoop (dependenciesForKustomization 1 exampleEnv) exampleEnv ''/'' []
        [''/kustomization.yaml''] = Some (Inr [''/kustomization.yaml''])"
    by simp
  have k6: "IsAbs ''/abs/dir''" by code_simp
  have k7: "Stat exampleEnv ''/abs/dir'' = Some (ModeDir OR 493)" by code_simp
  have k8: "IsDir (ModeDir OR 493)" by code_simp
  have k9: "dependenciesForKustomization 1 exampleEnv (Join ''/'' ''/abs/dir'') =
       Some (Inr [''/abs/dir/kustomization.yaml'', ''/abs/dir/service.yaml''])"
    by code_simp
  have k10: "candidatesLoop (dependenciesForKustomization 1 exampleEnv) exampleEnv ''/''
        [''/abs/file.yaml''] [] = Some (Inr [''/abs/file.yaml''])"
    by code_simp
  have k11: "[''/kustomization.yaml'']
      @ [''/abs/dir/kustomization.yaml'', ''/abs/dir/service.yaml''] @ [''/abs/file.yaml'']
      @ afterCandidates ''/'' absoluteContent [] =
      [''/kustomization.yaml'', ''/abs/dir/kustomization.yaml'',
       ''/abs/dir/service.yaml'', ''/abs/file.yaml'']"
    by code_simp
  have s6: "dependenciesForKustomization (Suc 1) exampleEnv ''/'' =
       Some (Inr [''/kustomization.yaml'', ''/abs/dir/kustomization.yaml'',
                  ''/abs/dir/service.yaml'', ''/abs/file.yaml''])"
    using T11[OF conjI[OF k1 conjI[OF k2 conjI[OF g3 conjI[OF k4 conjI[OF k5 conjI[OF k6
        conjI[OF k7 conjI[OF k8 conjI[OF k9 k10]]]]]]]]]]
    by (simp only: k11)
  have m1: "dependenciesForKustomization 1 exampleEnv (Join ''absolute'' ''/abs/dir'')
      = Some (Inr [])"
    by code_simp
  have m2: "candidatesLoop (dependenciesForKustomization 1 exampleEnv) exampleEnv ''absolute''
        [''/abs/file.yaml''] [] = Some (Inr [''absolute/abs/file.yaml''])"
    by code_simp
  have m3: "Bases absoluteContent @ Resources absoluteContent =
      [] @ ''/abs/dir'' # [''/abs/file.yaml'']"
    by (rule k4)
  have m4: "candidatesLoop (dependenciesForKustomization 1 exampleEnv) exampleEnv ''absolute''
      [] [''absolute/kustomization.yaml''] = Some (Inr [''absolute/kustomization.yaml''])"
    by simp
  have m5: "[''absolute/kustomization.yaml''] @ [] @ [''absolute/abs/file.yaml'']
      @ afterCandidates ''absolute'' absoluteContent [] =
      [''absolute/kustomization.yaml'', ''absolute/abs/file.yaml'']"
    by code_simp
  have s7: "dependenciesForKustomization (Suc 1) exampleEnv ''absolute'' =
       Some (Inr [''absolute/kustomization.yaml'', ''absolute/abs/file.yaml''])"
    using T11[OF conjI[OF g1 conjI[OF g2 conjI[OF g3 conjI[OF m3 conjI[OF m4 conjI[OF k6
        conjI[OF k7 conjI[OF k8 conjI[OF m1 m2]]]]]]]]]]
    by (simp only: m5)
  show ?thesis
    by (intro conjI a1 a2 r1 r2 a4 a5 r3 r4 a6 r5 b1 b2 r6 c1 c2 c3 r7 d1 d2 d3 r8
        e1 e2 e3 e4 s1 s2 s3 f1 f2 f3 s4 g1 g2 g3 g4 g5 g6 s5 k1 k2 k4 k5 k7 k8 k9 k10 s6
        k6 m1 m2)
qed

section \<open>Strategic merge patches: path or inline content\<close>

text \<open>
  C1, as the claim states it, fails: a double-quoted scalar is classified as a path, and
  its value, joined with the overlay directory, is in the dependencies of the example
  overlay.
\<close>

theorem C1_counterexample:
  "fst (strategicMergePatch_UnmarshalYAML zeroStrategicMergePatch
          \<lparr>Style = DoubleQuotedStyle, Value = ''spec: {}''\<rparr>)
     = \<lparr>strategicMergePatch.Path = ''spec: {}'', strategicMergePatch.Patch = []\<rparr>
   \<and> docPatchesStrategicMerge overlayDocument =
       [\<lparr>Style = 0, Value = ''patch.yaml''\<rparr>,
        \<lparr>Style = DoubleQuotedStyle, Value = ''spec: {}''\<rparr>,
        \<lparr>Style = LiteralStyle, Value = ''kind: Deployment''\<rparr>]
   \<and> dependenciesForKustomization 2 exampleEnv ''.'' =
       Some (Inr [''kustomization.yaml'', ''base/kustomization.yaml'', ''base/service.yaml'',
         ''deployment.yaml'', ''abs/file.yaml'', ''patch.yaml'', ''spec: {}'', ''/abs/crd.yaml'',
         ''crd.yaml'', ''p1.yaml'', ''p2.yaml'', ''j.yaml'', ''cfg.properties'',
         ''/etc/app.conf'', ''b.env'', ''a.env'', ''secret.txt'', ''/run/secrets/token'',
         ''c.env''])"
  by code_simp

text \<open>
  C1, amended. The classification of an entry of \<^verbatim>\<open>patchesStrategicMerge\<close> depends only
  on the style of the scalar: a plain, double-quoted or single-quoted scalar (style 0,
  \<^verbatim>\<open>DoubleQuotedStyle\<close> or \<^verbatim>\<open>SingleQuotedStyle\<close>) is a path, every other style, the
  literal and folded block styles among them, is inline content. What the entries add to
  the dependencies of a directory is the value of every path entry with a non-empty
  value, joined with the directory, in order; an inline entry adds nothing.
\<close>

theorem C1_style_decides_path_or_inline:
  "fst (strategicMergePatch_UnmarshalYAML zeroStrategicMergePatch node) =
     (if Style node \<in> {0, DoubleQuotedStyle, SingleQuotedStyle}
      then \<lparr>strategicMergePatch.Path = Value node, strategicMergePatch.Patch = []\<rparr>
      else \<lparr>strategicMergePatch.Path = [], strategicMergePatch.Patch = Value node\<rparr>)
   \<and> (Style node = LiteralStyle \<or> Style node = FoldedStyle \<longrightarrow>
        fst (strategicMergePatch_UnmarshalYAML zeroStrategicMergePatch node) =
          \<lparr>strategicMergePatch.Path = [], strategicMergePatch.Patch = Value node\<rparr>)
   \<and> (findKustomizationConfig fs dir = Inr path \<and> ReadFile fs path = Inr buf
        \<and> Parse fs buf = Inr d \<and> decodeKustomization d = Inr content
        \<and> candidatesLoop (dependenciesForKustomization n fs) fs dir
             (Bases content @ Resources content) [path] = Some (Inr cds) \<longrightarrow>
        dependenciesForKustomization (Suc n) fs dir =
          Some (Inr (cds
            @ map (\<lambda>node. Join dir (Value node))
                (filter (\<lambda>node. Style node \<in> {0, DoubleQuotedStyle, SingleQuotedStyle}
                                 \<and> Value node \<noteq> [])
                   (docPatchesStrategicMerge d))
            @ afterCandidates dir (content\<lparr>PatchesStrategicMerge := []\<rparr>) [])))"
proof (intro conjI impI; (elim conjE)?)
  show "fst (strategicMergePatch_UnmarshalYAML zeroStrategicMergePatch node) =
     (if Style node \<in> {0, DoubleQuotedStyle, SingleQuotedStyle}
      then \<lparr>strategicMergePatch.Path = Value node, strategicMergePatch.Patch = []\<rparr>
      else \<lparr>strategicMergePatch.Path = [], strategicMergePatch.Patch = Value node\<rparr>)"
    by (rule strategicMerge_classified)
  show "fst (strategicMergePatch_UnmarshalYAML zeroStrategicMergePatch node) =
          \<lparr>strategicMergePatch.Path = [], strategicMergePatch.Patch = Value node\<rparr>"
    if "Style node = LiteralStyle \<or> Style node = FoldedStyle"
  proof -
    from that have "Style node \<notin> {0, DoubleQuotedStyle, SingleQuotedStyle}"
      using block_styles_not_path by metis
    then show ?thesis by (simp only: strategicMerge_classified if_False)
  qed
  show "dependenciesForKustomization (Suc n) fs dir =
          Some (Inr (cds
            @ map (\<lambda>node. Join dir (Value node))
                (filter (\<lambda>node. Style node \<in> {0, DoubleQuotedStyle, SingleQuotedStyle}
                                 \<and> Value node \<noteq> [])
                   (docPatchesStrategicMerge d))
            @ afterCandidates dir (content\<lparr>PatchesStrategicMerge := []\<rparr>) []))"
    if found: "findKustomizationConfig fs dir = Inr path" and rd: "ReadFile fs path = Inr buf"
      and parse: "Parse fs buf = Inr d" and dec: "decodeKustomization d = Inr content"
      and loop: "candidatesLoop (dependenciesForKustomization n fs) fs dir
             (Bases content @ Resources content) [path] = Some (Inr cds)"
  proof -
    from parse dec have um: "yaml_Unmarshal fs buf = Inr content"
      by (simp add: yaml_Unmarshal_def)
    have "dependenciesForKustomization (Suc n) fs dir =
        Some (Inr (afterCandidates dir content cds))"
      by (simp add: dependenciesForKustomization_found[OF found rd um] loop)
    also have "afterCandidates dir content cds =
        cds @ map (\<lambda>p. Join dir (strategicMergePatch.Path p))
         (filter (\<lambda>p. strategicMergePatch.Path p \<noteq> []) (PatchesStrategicMerge content))
        @ afterCandidates dir (content\<lparr>PatchesStrategicMerge := []\<rparr>) []"
      by (rule afterCandidates_without_strategicMerge)
    finally show ?thesis
      by (simp only: decodeKustomization_strategicMerge[OF dec] strategicMerge_paths_of_nodes)
  qed
qed

theorem C1_witness:
  "Style \<lparr>Style = LiteralStyle, Value = ''kind: Deployment''\<rparr> = LiteralStyle
   \<and> fst (strategicMergePatch_UnmarshalYAML zeroStrategicMergePatch
            \<lparr>Style = LiteralStyle, Value = ''kind: Deployment''\<rparr>)
       = \<lparr>strategicMergePatch.Path = [], strategicMergePatch.Patch = ''kind: Deployment''\<rparr>
   \<and> findKustomizationConfig exampleEnv ''.'' = Inr ''kustomization.yaml''
   \<and> ReadFile exampleEnv ''kustomization.yaml'' = Inr ''overlay''
   \<and> Parse exampleEnv ''overlay'' = Inr overlayDocument
   \<and> decodeKustomization overlayDocument = Inr overlayContent
   \<and> candidatesLoop (dependenciesForKustomization 1 exampleEnv) exampleEnv ''.''
        (Bases overlayContent @ Resources overlayContent) [''kustomization.yaml'']
       = Some (Inr exampleCandidatesDeps)
   \<and> dependenciesForKustomization (Suc 1) exampleEnv ''.'' =
       Some (Inr (exampleCandidatesDeps @ [''patch.yaml'', ''spec: {}'']
         @ afterCandidates ''.'' (overlayContent\<lparr>PatchesStrategicMerge := []\<rparr>) []))"
proof -
  note T = C1_style_decides_path_or_inline
  have a1: "Style \<lparr>Style = LiteralStyle, Value = ''kind: Deployment''\<rparr> = LiteralStyle"
    by simp
  have r1: "fst (strategicMergePatch_UnmarshalYAML zeroStrategicMergePatch
            \<lparr>Style = LiteralStyle, Value = ''kind: Deployment''\<rparr>)
       = \<lparr>strategicMergePatch.Path = [], strategicMergePatch.Patch = ''kind: Deployment''\<rparr>"
    using T[where node = "\<lparr>Style = LiteralStyle, Value = ''kind: Deployment''\<rparr>",
        THEN conjunct2, THEN conjunct1, THEN mp, OF disjI1[OF a1]]
    by simp
  have h1: "findKustomizationConfig exampleEnv ''.'' = Inr ''kustomization.yaml''"
    by code_simp
  have h2: "ReadFile exampleEnv ''kustomization.yaml'' = Inr ''overlay''"
    by code_simp
  have h3: "Parse exampleEnv ''overlay'' = Inr overlayDocument"
    by (simp add: exampleEnv_def)
  have h4: "decodeKustomization overlayDocument = Inr overlayContent"
    by code_simp
  have h5: "candidatesLoop (dependenciesForKustomization 1 exampleEnv) exampleEnv ''.''
        (Bases overlayContent @ Resources overlayContent) [''kustomization.yaml'']
       = Some (Inr exampleCandidatesDeps)"
    by code_simp
  have sm: "map (\<lambda>node. Join ''.'' (Value node))
       (filter (\<lambda>node. Style node \<in> {0, DoubleQuotedStyle, SingleQuotedStyle} \<and> Value node \<noteq> [])
          (docPatchesStrategicMerge overlayDocument)) = [''patch.yaml'', ''spec: {}'']"
    by code_simp
  have r2: "dependenciesForKustomization (Suc 1) exampleEnv ''.'' =
       Some (Inr (exampleCandidatesDeps @ [''patch.yaml'', ''spec: {}'']
         @ afterCandidates ''.'' (overlayContent\<lparr>PatchesStrategicMerge := []\<rparr>) []))"
    using T[where fs = exampleEnv and dir = "''.''" and n = 1,
        THEN conjunct2, THEN conjunct2, THEN mp,
        OF conjI[OF h1 conjI[OF h2 conjI[OF h3 conjI[OF h4 h5]]]]]
    by (simp only: sm)
  show ?thesis
    by (intro conjI a1 r1 h1 h2 h3 h4 h5 r2)
qed

section \<open>Path and inline content of a patch\<close>




section \<open>Generators\<close>

text \<open>
  C6. For every entry of \<^verbatim>\<open>configMapGenerator\<close> and then of \<^verbatim>\<open>secretGenerator\<close> the
  resolver adds the resolved paths of \<^verbatim>\<open>files\<close> and then the resolved paths of \<^verbatim>\<open>envs\<close>
  with \<^verbatim>\<open>env\<close> appended once when \<^verbatim>\<open>env\<close> is not empty, and of \<^verbatim>\<open>envs\<close> alone when
  it is empty.
\<close>

theorem C6_generator_files_and_env_files:
  "(findKustomizationConfig fs dir = Inr path \<and> ReadFile fs path = Inr buf
      \<and> yaml_Unmarshal fs buf = Inr content
      \<and> candidatesLoop (dependenciesForKustomization n fs) fs dir
           (Bases content @ Resources content) [path] = Some (Inr cds) \<longrightarrow>
      dependenciesForKustomization (Suc n) fs dir =
        Some (Inr (afterCandidates dir
                     (content\<lparr>ConfigMapGenerator := [], SecretGenerator := []\<rparr>) cds
          @ concat (map (configMapGeneratorDeps dir) (ConfigMapGenerator content))
          @ concat (map (secretGeneratorDeps dir) (SecretGenerator content)))))
   \<and> configMapGeneratorStep dir deps cm =
       deps @ AbsolutePaths dir (configMapGenerator.Files cm)
         @ AbsolutePaths dir
             (if configMapGenerator.Env cm = [] then configMapGenerator.Envs cm
              else configMapGenerator.Envs cm @ [configMapGenerator.Env cm])
   \<and> secretGeneratorStep dir deps sg =
       deps @ AbsolutePaths dir (secretGenerator.Files sg)
         @ AbsolutePaths dir
             (if secretGenerator.Env sg = [] then secretGenerator.Envs sg
              else secretGenerator.Envs sg @ [secretGenerator.Env sg])"
proof (intro conjI impI; (elim conjE)?)
  show "dependenciesForKustomization (Suc n) fs dir =
        Some (Inr (afterCandidates dir
                     (content\<lparr>ConfigMapGenerator := [], SecretGenerator := []\<rparr>) cds
          @ concat (map (configMapGeneratorDeps dir) (ConfigMapGenerator content))
          @ concat (map (secretGeneratorDeps dir) (SecretGenerator content))))"
    if found: "findKustomizationConfig fs dir = Inr path" and rd: "ReadFile fs path = Inr buf"
      and um: "yaml_Unmarshal fs buf = Inr content"
      and loop: "candidatesLoop (dependenciesForKustomization n fs) fs dir
           (Bases content @ Resources content) [path] = Some (Inr cds)"
  proof -
    have "dependenciesForKustomization (Suc n) fs dir =
        Some (Inr (afterCandidates dir content cds))"
      by (simp add: dependenciesForKustomization_found[OF found rd um] loop)
    then show ?thesis
      by (simp only: afterCandidates_without_generators[of dir content cds])
  qed
  show "configMapGeneratorStep dir deps cm =
       deps @ AbsolutePaths dir (configMapGenerator.Files cm)
         @ AbsolutePaths dir
             (if configMapGenerator.Env cm = [] then configMapGenerator.Envs cm
              else configMapGenerator.Envs cm @ [configMapGenerator.Env cm])"
    by (simp add: configMapGeneratorStep_def Let_def)
  show "secretGeneratorStep dir deps sg =
       deps @ AbsolutePaths dir (secretGenerator.Files sg)
         @ AbsolutePaths dir
             (if secretGenerator.Env sg = [] then secretGenerator.Envs sg
              else secretGenerator.Envs sg @ [secretGenerator.Env sg])"
    by (simp add: secretGeneratorStep_def Let_def)
qed

theorem C6_witness:
  "findKustomizationConfig exampleEnv ''.'' = Inr ''kustomization.yaml''
   \<and> ReadFile exampleEnv ''kustomization.yaml'' = Inr ''overlay''
   \<and> yaml_Unmarshal exampleEnv ''overlay'' = Inr overlayContent
   \<and> candidatesLoop (dependenciesForKustomization 1 exampleEnv) exampleEnv ''.''
        (Bases overlayContent @ Resources overlayContent) [''kustomization.yaml'']
       = Some (Inr exampleCandidatesDeps)
   \<and> dependenciesForKustomization (Suc 1) exampleEnv ''.'' =
       Some (Inr (afterCandidates ''.''
                    (overlayContent\<lparr>ConfigMapGenerator := [], SecretGenerator := []\<rparr>)
                    exampleCandidatesDeps
         @ [''cfg.properties'', ''/etc/app.conf'', ''b.env'', ''a.env'']
         @ [''secret.txt'', ''/run/secrets/token'', ''c.env'']))"
proof -
  have h1: "findKustomizationConfig exampleEnv ''.'' = Inr ''kustomization.yaml''"
    by code_simp
  have h2: "ReadFile exampleEnv ''kustomization.yaml'' = Inr ''overlay''"
    by code_simp
  have h3: "yaml_Unmarshal exampleEnv ''overlay'' = Inr overlayContent"
    by code_simp
  have h4: "candidatesLoop (dependenciesForKustomization 1 exampleEnv) exampleEnv ''.''
        (Bases overlayContent @ Resources overlayContent) [''kustomization.yaml'']
       = Some (Inr exampleCandidatesDeps)"
    by code_simp
  have g1: "concat (map (configMapGeneratorDeps ''.'') (ConfigMapGenerator overlayContent))
      = [''cfg.properties'', ''/etc/app.conf'', ''b.env'', ''a.env'']"
    by code_simp
  have g2: "concat (map (secretGeneratorDeps ''.'') (SecretGenerator overlayContent))
      = [''secret.txt'', ''/run/secrets/token'', ''c.env'']"
    by code_simp
  have r: "dependenciesForKustomization (Suc 1) exampleEnv ''.'' =
       Some (Inr (afterCandidates ''.''
                    (overlayContent\<lparr>ConfigMapGenerator := [], SecretGenerator := []\<rparr>)
                    exampleCandidatesDeps
         @ [''cfg.properties'', ''/etc/app.conf'', ''b.env'', ''a.env'']
         @ [''secret.txt'', ''/run/secrets/token'', ''c.env'']))"
    using C6_generator_files_and_env_files[where fs = exampleEnv and dir = "''.''" and n = 1,
        THEN conjunct1, THEN mp, OF conjI[OF h1 conjI[OF h2 conjI[OF h3 h4]]]]
    by (simp only: g1 g2)
  show ?thesis
    by (intro conjI h1 h2 h3 h4 r)
qed

section \<open>The predicates on changed files\<close>

text \<open>
  C9, as the claim states it, fails for \<^verbatim>\<open>IsKustomizationBase\<close>: the directory containing
  \<^verbatim>\<open>overlays/base/kustomization.yaml\<close> is named \<^verbatim>\<open>base\<close>, and so is the one containing
  \<^verbatim>\<open>/app/base/kustomization.yaml\<close>, yet the predicate is false for both paths.
\<close>

theorem C9_counterexample:
  "Base (Dir ''overlays/base/kustomization.yaml'') = ''base''
   \<and> \<not> IsKustomizationBase ''overlays/base/kustomization.yaml''
   \<and> Base (Dir ''/app/base/kustomization.yaml'') = ''base''
   \<and> \<not> IsKustomizationBase ''/app/base/kustomization.yaml''"
  by code_simp

text \<open>
  C9, amended. \<^verbatim>\<open>IsKustomizationBase(path)\<close> is true exactly when \<^verbatim>\<open>filepath.Dir(path)\<close>,
  the whole cleaned directory part of the path and not only its last element, equals
  \<^verbatim>\<open>base\<close>: the directory part is not empty, is relative, and cleans to the single
  element \<^verbatim>\<open>base\<close>. \<^verbatim>\<open>IsKustomizationPath(path)\<close> is true exactly when
  \<^verbatim>\<open>filepath.Base(path)\<close> is one of the three accepted configuration filenames.
\<close>

theorem C9_base_is_whole_directory_and_path_is_filename:
  "IsKustomizationBase path = (Dir path = ''base'')
   \<and> IsKustomizationBase path =
       (dirPrefix path \<noteq> [] \<and> \<not> IsAbs (dirPrefix path)
        \<and> rev (foldl (cleanStep False) [] (Split (CHR ''/'') (dirPrefix path))) = [''base''])
   \<and> IsKustomizationPath path =
       (Base path \<in> {''kustomization.yaml'', ''kustomization.yml'', ''Kustomization''})
   \<and> IsKustomizationBase ''base/kustomization.yaml''
   \<and> IsKustomizationBase ''./base/deployment.yaml''
   \<and> IsKustomizationBase ''overlays/../base/kustomization.yaml''"
proof -
  have a: "IsKustomizationBase path = (Dir path = ''base'')"
    by (simp add: IsKustomizationBase_def basePath_def)
  have b: "IsKustomizationBase path =
       (dirPrefix path \<noteq> [] \<and> \<not> IsAbs (dirPrefix path)
        \<and> rev (foldl (cleanStep False) [] (Split (CHR ''/'') (dirPrefix path))) = [''base''])"
    unfolding a Dir_def by (rule Clean_eq_base)
  have c: "IsKustomizationPath path =
       (Base path \<in> {''kustomization.yaml'', ''kustomization.yml'', ''Kustomization''})"
    by (simp add: IsKustomizationPath_def filenameIn_set kustomizeFilePaths_def)
  have d: "IsKustomizationBase ''base/kustomization.yaml''"
    "IsKustomizationBase ''./base/deployment.yaml''"
    "IsKustomizationBase ''overlays/../base/kustomization.yaml''"
    by code_simp+
  show ?thesis by (intro conjI a b c d)
qed

section \<open>Dependencies of the deployer\<close>

text \<open>
  C5. When the resolver returns a list for every configured path, \<^verbatim>\<open>Dependencies\<close>
  returns the sorted list, without duplicates, of the union of those lists. When the
  resolver returns an error for a configured path and a list for every path before it,
  \<^verbatim>\<open>Dependencies\<close> returns that error and no list.
\<close>

theorem C5_dependencies_sorted_union_or_first_error:
  "((\<forall>p\<in>set (KustomizePaths k). dependenciesForKustomization fuel fs p = Some (Inr (g p))) \<longrightarrow>
      Dependencies fuel fs k =
        Some (Inr (sorted_list_of_set (\<Union>p\<in>set (KustomizePaths k). set (g p))))
      \<and> set (sorted_list_of_set (\<Union>p\<in>set (KustomizePaths k). set (g p))) =
          (\<Union>p\<in>set (KustomizePaths k). set (g p))
      \<and> sorted (sorted_list_of_set (\<Union>p\<in>set (KustomizePaths k). set (g p)))
      \<and> distinct (sorted_list_of_set (\<Union>p\<in>set (KustomizePaths k). set (g p))))
   \<and> (KustomizePaths k = ps @ q # rest
       \<and> (\<forall>p\<in>set ps. dependenciesForKustomization fuel fs p = Some (Inr (g p)))
       \<and> dependenciesForKustomization fuel fs q = Some (Inl e) \<longrightarrow>
      Dependencies fuel fs k = Some (Inl e))"
proof (intro conjI impI; (elim conjE)?)
  assume ok: "\<forall>p\<in>set (KustomizePaths k).
      dependenciesForKustomization fuel fs p = Some (Inr (g p))"
  have "DependenciesLoop fuel fs (KustomizePaths k) newStringSet =
      Some (Inr (toList (newStringSet \<union> (\<Union>p\<in>set (KustomizePaths k). set (g p)))))"
    using ok by (rule DependenciesLoop_union)
  then show "Dependencies fuel fs k =
        Some (Inr (sorted_list_of_set (\<Union>p\<in>set (KustomizePaths k). set (g p))))"
    by (simp add: Dependencies_def newStringSet_def toList_def)
next
  show "set (sorted_list_of_set (\<Union>p\<in>set (KustomizePaths k). set (g p))) =
          (\<Union>p\<in>set (KustomizePaths k). set (g p))"
    by simp
next
  show "sorted (sorted_list_of_set (\<Union>p\<in>set (KustomizePaths k). set (g p)))"
    by simp
next
  show "distinct (sorted_list_of_set (\<Union>p\<in>set (KustomizePaths k). set (g p)))"
    by simp
next
  assume paths: "KustomizePaths k = ps @ q # rest"
    and ok: "\<forall>p\<in>set ps. dependenciesForKustomization fuel fs p = Some (Inr (g p))"
    and bad: "dependenciesForKustomization fuel fs q = Some (Inl e)"
  have "DependenciesLoop fuel fs (ps @ q # rest) newStringSet = Some (Inl e)"
    using ok bad by (rule DependenciesLoop_abort)
  then show "Dependencies fuel fs k = Some (Inl e)"
    by (simp add: Dependencies_def paths)
qed

theorem C5_witness:
  "dependenciesForKustomization 2 exampleEnv ''.'' = Some (Inr (exampleDeps ''.''))
   \<and> dependenciesForKustomization 2 exampleEnv ''base'' = Some (Inr (exampleDeps ''base''))
   \<and> Dependencies 2 exampleEnv (deployerOf [''.'', ''base'']) =
       Some (Inr [''/abs/crd.yaml'', ''/etc/app.conf'', ''/run/secrets/token'', ''a.env'',
         ''abs/file.yaml'', ''b.env'', ''base/kustomization.yaml'', ''base/service.yaml'',
         ''c.env'', ''cfg.properties'', ''crd.yaml'', ''deployment.yaml'', ''j.yaml'',
         ''kustomization.yaml'', ''p1.yaml'', ''p2.yaml'', ''patch.yaml'', ''secret.txt'',
         ''spec: {}''])
   \<and> KustomizePaths (deployerOf [''base'', ''broken'', ''.'']) = [''base''] @ ''broken'' # [''.'']
   \<and> dependenciesForKustomization 2 exampleEnv ''broken'' = Some (Inl (Error ''read error''))
   \<and> Dependencies 2 exampleEnv (deployerOf [''base'', ''broken'', ''.'']) =
       Some (Inl (Error ''read error''))"
proof -
  note T = C5_dependencies_sorted_union_or_first_error
  have h1: "dependenciesForKustomization 2 exampleEnv ''.'' = Some (Inr (exampleDeps ''.''))"
    by code_simp
  have h2: "dependenciesForKustomization 2 exampleEnv ''base'' = Some (Inr (exampleDeps ''base''))"
    by code_simp
  have all: "\<forall>p\<in>set (KustomizePaths (deployerOf [''.'', ''base''])).
      dependenciesForKustomization 2 exampleEnv p = Some (Inr (exampleDeps p))"
    using h1 h2 by (simp add: deployerOf_def)
  have srt: "sorted_list_of_set
      (\<Union>p\<in>set (KustomizePaths (deployerOf [''.'', ''base''])). set (exampleDeps p)) =
       [''/abs/crd.yaml'', ''/etc/app.conf'', ''/run/secrets/token'', ''a.env'',
         ''abs/file.yaml'', ''b.env'', ''base/kustomization.yaml'', ''base/service.yaml'',
         ''c.env'', ''cfg.properties'', ''crd.yaml'', ''deployment.yaml'', ''j.yaml'',
         ''kustomization.yaml'', ''p1.yaml'', ''p2.yaml'', ''patch.yaml'', ''secret.txt'',
         ''spec: {}'']"
    by code_simp
  have r1: "Dependencies 2 exampleEnv (deployerOf [''.'', ''base'']) =
       Some (Inr [''/abs/crd.yaml'', ''/etc/app.conf'', ''/run/secrets/token'', ''a.env'',
         ''abs/file.yaml'', ''b.env'', ''base/kustomization.yaml'', ''base/service.yaml'',
         ''c.env'', ''cfg.properties'', ''crd.yaml'', ''deployment.yaml'', ''j.yaml'',
         ''kustomization.yaml'', ''p1.yaml'', ''p2.yaml'', ''patch.yaml'', ''secret.txt'',
         ''spec: {}''])"
    using T[where g = exampleDeps, THEN conjunct1, THEN mp, OF all, THEN conjunct1]
    by (simp only: srt)
  have p: "KustomizePaths (deployerOf [''base'', ''broken'', ''.'']) =
      [''base''] @ ''broken'' # [''.'']"
    by (simp add: deployerOf_def)
  have ok: "\<forall>p\<in>set [''base'']. dependenciesForKustomization 2 exampleEnv p =
      Some (Inr (exampleDeps p))"
    using h2 by simp
  have bad: "dependenciesForKustomization 2 exampleEnv ''broken'' =
      Some (Inl (Error ''read error''))"
    by code_simp
  have r2: "Dependencies 2 exampleEnv (deployerOf [''base'', ''broken'', ''.'']) =
       Some (Inl (Error ''read error''))"
    by (rule T[where g = exampleDeps, THEN conjunct2, THEN mp, OF conjI[OF p conjI[OF ok bad]]])
  show ?thesis
    by (intro conjI h1 h2 r1 p bad r2)
qed

section \<open>Reading and rendering manifests\<close>

text \<open>
  C7. When the command succeeds for every configured path, \<^verbatim>\<open>readManifests\<close> appends the
  outputs that are not empty, in the order of the paths, and an empty output adds nothing
  and is no error; with an \<^verbatim>\<open>Append\<close> that adds the output as one manifest the result is
  the list of the non-empty outputs. When the list read is empty, \<^verbatim>\<open>renderManifests\<close>
  returns the empty list after the version check, the registry lookup and the commands
  alone: no image replacement, no transform and no label injection is called.
\<close>

theorem C7_outputs_concatenated_and_empty_short_circuits:
  "((\<forall>p\<in>set (KustomizePaths k).
        RunCmdOut c ''kustomize'' (buildCommandArgs (BuildArgs k) p) = Inr (out p)) \<longrightarrow>
      readManifests c k tr =
        (Inr (foldl (Append c) [] (filter (\<lambda>buf. buf \<noteq> []) (map out (KustomizePaths k)))),
         tr @ map (\<lambda>p. CallRunCmdOut ''kustomize'' (buildCommandArgs (BuildArgs k) p))
                (KustomizePaths k)))
   \<and> ((\<forall>l buf. Append c l buf = l @ [buf])
       \<and> (\<forall>p\<in>set (KustomizePaths k).
            RunCmdOut c ''kustomize'' (buildCommandArgs (BuildArgs k) p) = Inr (out p)) \<longrightarrow>
      fst (readManifests c k tr) =
        Inr (filter (\<lambda>buf. buf \<noteq> []) (map out (KustomizePaths k))))
   \<and> (GetDebugHelpersRegistry c (globalConfig k) = Inr reg
       \<and> (\<forall>p\<in>set (KustomizePaths k).
            RunCmdOut c ''kustomize'' (buildCommandArgs (BuildArgs k) p) = Inr (out p))
       \<and> foldl (Append c) [] (filter (\<lambda>buf. buf \<noteq> []) (map out (KustomizePaths k))) = [] \<longrightarrow>
      renderManifests c k builds tr =
        (Inr [],
         tr @ [CallCheckVersion]
            @ (case CheckVersion c of Some _ \<Rightarrow> [CallVersion] | None \<Rightarrow> [])
            @ [CallGetDebugHelpersRegistry]
            @ map (\<lambda>p. CallRunCmdOut ''kustomize'' (buildCommandArgs (BuildArgs k) p))
                (KustomizePaths k))
      \<and> filter isTransformCall (snd (renderManifests c k builds tr)) =
          filter isTransformCall tr)"
proof (intro conjI impI; (elim conjE)?)
  assume outs: "\<forall>p\<in>set (KustomizePaths k).
        RunCmdOut c ''kustomize'' (buildCommandArgs (BuildArgs k) p) = Inr (out p)"
  show "readManifests c k tr =
        (Inr (foldl (Append c) [] (filter (\<lambda>buf. buf \<noteq> []) (map out (KustomizePaths k)))),
         tr @ map (\<lambda>p. CallRunCmdOut ''kustomize'' (buildCommandArgs (BuildArgs k) p))
                (KustomizePaths k))"
    unfolding readManifests_def using outs by (rule readManifestsLoop_outputs)
next
  assume app: "\<forall>l buf. Append c l buf = l @ [buf]"
    and outs: "\<forall>p\<in>set (KustomizePaths k).
        RunCmdOut c ''kustomize'' (buildCommandArgs (BuildArgs k) p) = Inr (out p)"
  have "readManifests c k tr =
        (Inr (foldl (Append c) [] (filter (\<lambda>buf. buf \<noteq> []) (map out (KustomizePaths k)))),
         tr @ map (\<lambda>p. CallRunCmdOut ''kustomize'' (buildCommandArgs (BuildArgs k) p))
                (KustomizePaths k))"
    unfolding readManifests_def using outs by (rule readManifestsLoop_outputs)
  moreover have "foldl (Append c) [] (filter (\<lambda>buf. buf \<noteq> []) (map out (KustomizePaths k))) =
      [] @ filter (\<lambda>buf. buf \<noteq> []) (map out (KustomizePaths k))"
    using app by (simp add: foldl_snoc)
  ultimately show "fst (readManifests c k tr) =
        Inr (filter (\<lambda>buf. buf \<noteq> []) (map out (KustomizePaths k)))"
    by simp
next
  assume reg: "GetDebugHelpersRegistry c (globalConfig k) = Inr reg"
    and outs: "\<forall>p\<in>set (KustomizePaths k).
        RunCmdOut c ''kustomize'' (buildCommandArgs (BuildArgs k) p) = Inr (out p)"
    and empty: "foldl (Append c) [] (filter (\<lambda>buf. buf \<noteq> []) (map out (KustomizePaths k))) = []"
  let ?tr2 = "tr @ [CallCheckVersion]
      @ (case CheckVersion c of Some _ \<Rightarrow> [CallVersion] | None \<Rightarrow> [])
      @ [CallGetDebugHelpersRegistry]"
  have "readManifests c k ?tr2 =
        (Inr (foldl (Append c) [] (filter (\<lambda>buf. buf \<noteq> []) (map out (KustomizePaths k)))),
         ?tr2 @ map (\<lambda>p. CallRunCmdOut ''kustomize'' (buildCommandArgs (BuildArgs k) p))
                (KustomizePaths k))"
    unfolding readManifests_def using outs by (rule readManifestsLoop_outputs)
  then have rm: "readManifests c k ?tr2 =
        (Inr [],
         ?tr2 @ map (\<lambda>p. CallRunCmdOut ''kustomize'' (buildCommandArgs (BuildArgs k) p))
                (KustomizePaths k))"
    by (simp only: empty)
  show r: "renderManifests c k builds tr =
        (Inr [],
         tr @ [CallCheckVersion]
            @ (case CheckVersion c of Some _ \<Rightarrow> [CallVersion] | None \<Rightarrow> [])
            @ [CallGetDebugHelpersRegistry]
            @ map (\<lambda>p. CallRunCmdOut ''kustomize'' (buildCommandArgs (BuildArgs k) p))
                (KustomizePaths k))"
    using reg rm by (simp add: renderManifests_def Let_def)
  show "filter isTransformCall (snd (renderManifests c k builds tr)) =
          filter isTransformCall tr"
    unfolding r by (simp add: filter_empty_conv split: option.splits)
qed

theorem C7_witness:
  "RunCmdOut exampleCollaborators ''kustomize''
      (buildCommandArgs (BuildArgs (deployerOf [''.'', ''base''])) ''.'') = Inr (exampleOutput ''.'')
   \<and> RunCmdOut exampleCollaborators ''kustomize''
      (buildCommandArgs (BuildArgs (deployerOf [''.'', ''base''])) ''base'')
      = Inr (exampleOutput ''base'')
   \<and> readManifests exampleCollaborators (deployerOf [''.'', ''base'']) [] =
       (Inr [''kind: Service''],
        [CallRunCmdOut ''kustomize'' [''build'', ''.''],
         CallRunCmdOut ''kustomize'' [''build'', ''base'']])
   \<and> (\<forall>l buf. Append exampleCollaborators l buf = l @ [buf])
   \<and> fst (readManifests exampleCollaborators (deployerOf [''.'', ''base'']) []) =
       Inr [''kind: Service'']
   \<and> GetDebugHelpersRegistry exampleCollaborators (globalConfig (deployerOf [''.'']))
       = Inr ''gcr.io/debug-helpers''
   \<and> RunCmdOut exampleCollaborators ''kustomize''
      (buildCommandArgs (BuildArgs (deployerOf [''.''])) ''.'') = Inr (exampleOutput ''.'')
   \<and> foldl (Append exampleCollaborators) []
        (filter (\<lambda>buf. buf \<noteq> []) (map exampleOutput (KustomizePaths (deployerOf [''.''])))) = []
   \<and> renderManifests exampleCollaborators (deployerOf [''.'']) [] [] =
       (Inr [],
        [CallCheckVersion, CallGetDebugHelpersRegistry,
         CallRunCmdOut ''kustomize'' [''build'', ''.'']])
   \<and> filter isTransformCall
        (snd (renderManifests exampleCollaborators (deployerOf [''.'']) [] [])) = []"
proof -
  note T = C7_outputs_concatenated_and_empty_short_circuits
  have h1: "RunCmdOut exampleCollaborators ''kustomize''
      (buildCommandArgs (BuildArgs (deployerOf [''.'', ''base''])) ''.'') = Inr (exampleOutput ''.'')"
    by code_simp
  have h2: "RunCmdOut exampleCollaborators ''kustomize''
      (buildCommandArgs (BuildArgs (deployerOf [''.'', ''base''])) ''base'')
      = Inr (exampleOutput ''base'')"
    by code_simp
  have all: "\<forall>p\<in>set (KustomizePaths (deployerOf [''.'', ''base''])).
      RunCmdOut exampleCollaborators ''kustomize''
        (buildCommandArgs (BuildArgs (deployerOf [''.'', ''base''])) p) = Inr (exampleOutput p)"
    using h1 h2 by (simp add: deployerOf_def)
  have app: "\<forall>l buf. Append exampleCollaborators l buf = l @ [buf]"
    by (simp add: exampleCollaborators_def)
  have e1: "foldl (Append exampleCollaborators) []
      (filter (\<lambda>buf. buf \<noteq> []) (map exampleOutput (KustomizePaths (deployerOf [''.'', ''base'']))))
      = [''kind: Service'']"
    by code_simp
  have e2: "[] @ map (\<lambda>p. CallRunCmdOut ''kustomize''
        (buildCommandArgs (BuildArgs (deployerOf [''.'', ''base''])) p))
        (KustomizePaths (deployerOf [''.'', ''base''])) =
      [CallRunCmdOut ''kustomize'' [''build'', ''.''],
       CallRunCmdOut ''kustomize'' [''build'', ''base'']]"
    by code_simp
  have e3: "filter (\<lambda>buf. buf \<noteq> [])
      (map exampleOutput (KustomizePaths (deployerOf [''.'', ''base'']))) = [''kind: Service'']"
    by code_simp
  have r1: "readManifests exampleCollaborators (deployerOf [''.'', ''base'']) [] =
       (Inr [''kind: Service''],
        [CallRunCmdOut ''kustomize'' [''build'', ''.''],
         CallRunCmdOut ''kustomize'' [''build'', ''base'']])"
    using T[where out = exampleOutput and tr = "[]", THEN conjunct1, THEN mp, OF all]
    by (simp only: e1 e2)
  have r2: "fst (readManifests exampleCollaborators (deployerOf [''.'', ''base'']) []) =
       Inr [''kind: Service'']"
    using T[where out = exampleOutput and tr = "[]", THEN conjunct2, THEN conjunct1, THEN mp,
        OF conjI[OF app all]]
    by (simp only: e3)
  have g: "GetDebugHelpersRegistry exampleCollaborators (globalConfig (deployerOf [''.'']))
       = Inr ''gcr.io/debug-helpers''"
    by (simp add: exampleCollaborators_def)
  have h3: "RunCmdOut exampleCollaborators ''kustomize''
      (buildCommandArgs (BuildArgs (deployerOf [''.''])) ''.'') = Inr (exampleOutput ''.'')"
    by code_simp
  have all0: "\<forall>p\<in>set (KustomizePaths (deployerOf [''.''])).
      RunCmdOut exampleCollaborators ''kustomize''
        (buildCommandArgs (BuildArgs (deployerOf [''.''])) p) = Inr (exampleOutput p)"
    using h3 by (simp add: deployerOf_def)
  have emp: "foldl (Append exampleCollaborators) []
        (filter (\<lambda>buf. buf \<noteq> []) (map exampleOutput (KustomizePaths (deployerOf [''.''])))) = []"
    by code_simp
  have e4: "[] @ [CallCheckVersion]
      @ (case CheckVersion exampleCollaborators of Some _ \<Rightarrow> [CallVersion] | None \<Rightarrow> [])
      @ [CallGetDebugHelpersRegistry]
      @ map (\<lambda>p. CallRunCmdOut ''kustomize'' (buildCommandArgs (BuildArgs (deployerOf [''.''])) p))
          (KustomizePaths (deployerOf [''.''])) =
      [CallCheckVersion, CallGetDebugHelpersRegistry,
       CallRunCmdOut ''kustomize'' [''build'', ''.'']]"
    by code_simp
  note R = T[where out = exampleOutput and tr = "[]" and builds = "[]",
      THEN conjunct2, THEN conjunct2, THEN mp, OF conjI[OF g conjI[OF all0 emp]]]
  have r3: "renderManifests exampleCollaborators (deployerOf [''.'']) [] [] =
       (Inr [],
        [CallCheckVersion, CallGetDebugHelpersRegistry,
         CallRunCmdOut ''kustomize'' [''build'', ''.'']])"
    using R[THEN conjunct1] by (simp only: e4)
  have r4: "filter isTransformCall
        (snd (renderManifests exampleCollaborators (deployerOf [''.'']) [] [])) = []"
    using R[THEN conjunct2] by simp
  show ?thesis
    by (intro conjI h1 h2 r1 app r2 g h3 emp r3 r4)
qed

section \<open>Deploy\<close>

text \<open>
  C8. When rendering succeeds with no manifests, \<^verbatim>\<open>Deploy\<close> reports success with no
  namespaces and makes no apply call. When rendering fails, \<^verbatim>\<open>Deploy\<close> reports the failure
  and makes no apply call. When the namespaces of a non-empty manifest list cannot be
  collected, \<^verbatim>\<open>Deploy\<close> still applies the manifests, once, and its result is that of the
  apply call: success with the namespaces returned along with the error, or the error of
  the apply call.
\<close>

theorem C8_deploy_without_manifests_or_after_failures:
  "(renderManifests c k builds [DeployInProgress] = (Inr [], tr) \<longrightarrow>
      Deploy c k builds = (DeploySuccessResult [], tr @ [DeployComplete])
      \<and> filter isApplyCall (snd (Deploy c k builds)) = [])
   \<and> (renderManifests c k builds [DeployInProgress] = (Inl err, tr) \<longrightarrow>
      Deploy c k builds = (DeployErrorResult err, tr @ [DeployFailed err])
      \<and> filter isApplyCall (snd (Deploy c k builds)) = [])
   \<and> (renderManifests c k builds [DeployInProgress] = (Inr manifests, tr) \<and> manifests \<noteq> []
       \<and> CollectNamespaces c manifests = (namespaces, Some nsErr) \<longrightarrow>
      filter isApplyCall (snd (Deploy c k builds)) = [CallApply manifests]
      \<and> fst (Deploy c k builds) =
          (case Apply c manifests of
             Some applyErr \<Rightarrow> DeployErrorResult applyErr
           | None \<Rightarrow> DeploySuccessResult namespaces))"
proof (intro conjI impI; (elim conjE)?)
  assume r: "renderManifests c k builds [DeployInProgress] = (Inr [], tr)"
  have na: "filter isApplyCall tr = []"
    using renderManifests_no_apply[of c k builds "[DeployInProgress]"] r by simp
  show d: "Deploy c k builds = (DeploySuccessResult [], tr @ [DeployComplete])"
    by (simp add: Deploy_def r NewDeploySuccessResult_def)
  show "filter isApplyCall (snd (Deploy c k builds)) = []"
    unfolding d using na by simp
next
  assume r: "renderManifests c k builds [DeployInProgress] = (Inl err, tr)"
  have na: "filter isApplyCall tr = []"
    using renderManifests_no_apply[of c k builds "[DeployInProgress]"] r by simp
  show d: "Deploy c k builds = (DeployErrorResult err, tr @ [DeployFailed err])"
    by (simp add: Deploy_def r NewDeployErrorResult_def)
  show "filter isApplyCall (snd (Deploy c k builds)) = []"
    unfolding d using na by simp
next
  assume r: "renderManifests c k builds [DeployInProgress] = (Inr manifests, tr)"
    and ne: "manifests \<noteq> []"
    and ns: "CollectNamespaces c manifests = (namespaces, Some nsErr)"
  have na: "filter isApplyCall tr = []"
    using renderManifests_no_apply[of c k builds "[DeployInProgress]"] r by simp
  show "filter isApplyCall (snd (Deploy c k builds)) = [CallApply manifests]"
    using na by (cases "Apply c manifests") (simp_all add: Deploy_def r ne ns Let_def)
  show "fst (Deploy c k builds) =
          (case Apply c manifests of
             Some applyErr \<Rightarrow> DeployErrorResult applyErr
           | None \<Rightarrow> DeploySuccessResult namespaces)"
    by (cases "Apply c manifests")
      (simp_all add: Deploy_def r ne ns Let_def NewDeployErrorResult_def
        NewDeploySuccessResult_def)
qed

theorem C8_witness:
  "renderManifests exampleCollaborators (deployerOf [''.'']) [] [DeployInProgress] =
     (Inr [],
      [DeployInProgress, CallCheckVersion, CallGetDebugHelpersRegistry,
       CallRunCmdOut ''kustomize'' [''build'', ''.'']])
   \<and> Deploy exampleCollaborators (deployerOf [''.'']) [] =
       (DeploySuccessResult [],
        [DeployInProgress, CallCheckVersion, CallGetDebugHelpersRegistry,
         CallRunCmdOut ''kustomize'' [''build'', ''.''], DeployComplete])
   \<and> filter isApplyCall (snd (Deploy exampleCollaborators (deployerOf [''.'']) [])) = []
   \<and> renderManifests exampleCollaborators (deployerOf [''missing'']) [] [DeployInProgress] =
       (Inl (Wrapped ''reading manifests'' (Wrapped ''kustomize build'' (Error ''exit status 1''))),
        [DeployInProgress, CallCheckVersion, CallGetDebugHelpersRegistry,
         CallRunCmdOut ''kustomize'' [''build'', ''missing'']])
   \<and> fst (Deploy exampleCollaborators (deployerOf [''missing'']) []) =
       DeployErrorResult
         (Wrapped ''reading manifests'' (Wrapped ''kustomize build'' (Error ''exit status 1'')))
   \<and> filter isApplyCall (snd (Deploy exampleCollaborators (deployerOf [''missing'']) [])) = []
   \<and> renderManifests exampleCollaborators (deployerOf [''.'', ''base'']) [] [DeployInProgress] =
       (Inr [''kind: Service''],
        [DeployInProgress, CallCheckVersion, CallGetDebugHelpersRegistry,
         CallRunCmdOut ''kustomize'' [''build'', ''.''],
         CallRunCmdOut ''kustomize'' [''build'', ''base''],
         CallReplaceImages, CallTransform 0, CallSetLabels])
   \<and> [''kind: Service''] \<noteq> ([]::string list)
   \<and> CollectNamespaces exampleCollaborators [''kind: Service'']
       = ([], Some (Error ''no namespace''))
   \<and> filter isApplyCall (snd (Deploy exampleCollaborators (deployerOf [''.'', ''base'']) []))
       = [CallApply [''kind: Service'']]
   \<and> fst (Deploy exampleCollaborators (deployerOf [''.'', ''base'']) []) = DeploySuccessResult []"
proof -
  note T = C8_deploy_without_manifests_or_after_failures
  have h1: "renderManifests exampleCollaborators (deployerOf [''.'']) [] [DeployInProgress] =
     (Inr [],
      [DeployInProgress, CallCheckVersion, CallGetDebugHelpersRegistry,
       CallRunCmdOut ''kustomize'' [''build'', ''.'']])"
    by code_simp
  note R1 = T[THEN conjunct1, THEN mp, OF h1]
  have r1: "Deploy exampleCollaborators (deployerOf [''.'']) [] =
       (DeploySuccessResult [],
        [DeployInProgress, CallCheckVersion, CallGetDebugHelpersRegistry,
         CallRunCmdOut ''kustomize'' [''build'', ''.''], DeployComplete])"
    using R1[THEN conjunct1] by simp
  have r2: "filter isApplyCall (snd (Deploy exampleCollaborators (deployerOf [''.'']) [])) = []"
    by (rule R1[THEN conjunct2])
  have h2: "renderManifests exampleCollaborators (deployerOf [''missing'']) []
      [DeployInProgress] =
       (Inl (Wrapped ''reading manifests'' (Wrapped ''kustomize build'' (Error ''exit status 1''))),
        [DeployInProgress, CallCheckVersion, CallGetDebugHelpersRegistry,
         CallRunCmdOut ''kustomize'' [''build'', ''missing'']])"
    by code_simp
  note R2 = T[THEN conjunct2, THEN conjunct1, THEN mp, OF h2]
  have r3: "fst (Deploy exampleCollaborators (deployerOf [''missing'']) []) =
       DeployErrorResult
         (Wrapped ''reading manifests'' (Wrapped ''kustomize build'' (Error ''exit status 1'')))"
    using R2[THEN conjunct1] by simp
  have r4: "filter isApplyCall (snd (Deploy exampleCollaborators (deployerOf [''missing'']) []))
      = []"
    by (rule R2[THEN conjunct2])
  have h3: "renderManifests exampleCollaborators (deployerOf [''.'', ''base'']) []
      [DeployInProgress] =
       (Inr [''kind: Service''],
        [DeployInProgress, CallCheckVersion, CallGetDebugHelpersRegistry,
         CallRunCmdOut ''kustomize'' [''build'', ''.''],
         CallRunCmdOut ''kustomize'' [''build'', ''base''],
         CallReplaceImages, CallTransform 0, CallSetLabels])"
    by code_simp
  have h4: "[''kind: Service''] \<noteq> ([]::string list)"
    by simp
  have h5: "CollectNamespaces exampleCollaborators [''kind: Service'']
       = ([], Some (Error ''no namespace''))"
    by (simp add: exampleCollaborators_def)
  note R3 = T[THEN conjunct2, THEN conjunct2, THEN mp, OF conjI[OF h3 conjI[OF h4 h5]]]
  have r5: "filter isApplyCall
      (snd (Deploy exampleCollaborators (deployerOf [''.'', ''base'']) []))
       = [CallApply [''kind: Service'']]"
    by (rule R3[THEN conjunct1])
  have ap: "Apply exampleCollaborators [''kind: Service''] = None"
    by (simp add: exampleCollaborators_def)
  have r6: "fst (Deploy exampleCollaborators (deployerOf [''.'', ''base'']) [])
      = DeploySuccessResult []"
    using R3[THEN conjunct2] by (simp add: ap)
  show ?thesis
    by (intro conjI h1 r1 r2 h2 r3 r4 h3 h4 h5 r5 r6)
qed

end
